theory Spec2Isabelle
  imports Complex_Main
begin

section \<open>JavaScript numbers\<close>

text \<open>
  \<^verbatim>\<open>amount * 100\<close> in \<^verbatim>\<open>src/app/lib/actions.ts\<close> is a product of IEEE 754 binary64
  values. A number is NaN, an infinity, or a finite double given by its exact rational
  value (the sign of zero is not kept: nothing in the handlers observes it).
\<close>

datatype number = NaN | PosInfinity | NegInfinity | Finite rat

text \<open>The number of binary digits of a positive integer.\<close>

function bitlen :: "int \<Rightarrow> int" where
  "bitlen n = (if n \<le> 0 then 0 else 1 + bitlen (n div 2))"
  by pat_completeness auto
termination
  by (relation "measure nat") auto

declare bitlen.simps [simp del]

definition pow2 :: "int \<Rightarrow> rat" where
  "pow2 e = (if 0 \<le> e then 2 ^ nat e else 1 / 2 ^ nat (- e))"

text \<open>\<open>ilog2 a\<close> is the \<open>k\<close> with \<open>2 ^ k \<le> a < 2 ^ (k + 1)\<close>, for a positive rational \<open>a\<close>.\<close>

definition ilog2 :: "rat \<Rightarrow> int" where
  "ilog2 a =
     (let (p, q) = quotient_of a;
          k0 = bitlen p - bitlen q
      in if pow2 k0 \<le> a then k0 else k0 - 1)"

text \<open>Rounding to the nearest integer, a tie going to the even one.\<close>

definition round_half_even :: "rat \<Rightarrow> int" where
  "round_half_even y =
     (let f = \<lfloor>y\<rfloor>; d = y - of_int f
      in if d < 1 / 2 then f
         else if 1 / 2 < d then f + 1
         else if even f then f else f + 1)"

text \<open>
  The double nearest to an exact value (round to nearest, ties to even): 53 significant
  bits, the least exponent of a unit in the last place is -1074, and a magnitude that
  rounds to \<open>2 ^ 1024\<close> or more is an infinity.
\<close>

definition round_double :: "rat \<Rightarrow> number" where
  "round_double x =
     (if x = 0 then Finite 0
      else let a = \<bar>x\<bar>;
               e = max (ilog2 a - 52) (- 1074);
               m = round_half_even (a / pow2 e)
           in if 971 < e \<or> (e = 971 \<and> 2 ^ 53 \<le> m)
              then (if 0 < x then PosInfinity else NegInfinity)
              else Finite (sgn x * of_int m * pow2 e))"

text \<open>The \<^verbatim>\<open>*\<close> operator on numbers.\<close>

fun is_zero :: "number \<Rightarrow> bool" where
  "is_zero (Finite r) = (r = 0)"
| "is_zero _ = False"

fun is_negative :: "number \<Rightarrow> bool" where
  "is_negative NegInfinity = True"
| "is_negative (Finite r) = (r < 0)"
| "is_negative _ = False"

fun times_number :: "number \<Rightarrow> number \<Rightarrow> number" where
  "times_number NaN _ = NaN"
| "times_number _ NaN = NaN"
| "times_number (Finite x) (Finite y) = round_double (x * y)"
| "times_number a b =
     (if is_zero a \<or> is_zero b then NaN
      else if is_negative a = is_negative b then PosInfinity else NegInfinity)"

text \<open>The comparisons \<^verbatim>\<open>a <= b\<close>; any comparison with NaN is false.\<close>

fun less_eq_number :: "number \<Rightarrow> number \<Rightarrow> bool" where
  "less_eq_number NaN _ = False"
| "less_eq_number _ NaN = False"
| "less_eq_number NegInfinity _ = True"
| "less_eq_number _ PosInfinity = True"
| "less_eq_number (Finite x) (Finite y) = (x \<le> y)"
| "less_eq_number _ _ = False"

fun negate :: "number \<Rightarrow> number" where
  "negate NaN = NaN"
| "negate PosInfinity = NegInfinity"
| "negate NegInfinity = PosInfinity"
| "negate (Finite r) = Finite (- r)"

section \<open>\<^verbatim>\<open>Number(string)\<close>\<close>

text \<open>
  \<^verbatim>\<open>z.coerce.number()\<close> applies \<^verbatim>\<open>Number\<close> to the raw form value. On a string this is
  the StringToNumber operation of ECMA-262: white space is trimmed, the empty string is
  0, and the rest must be a decimal literal (optional sign, \<^verbatim>\<open>Infinity\<close>, digits with an
  optional fraction and exponent) or an unsigned literal with prefix \<^verbatim>\<open>0x\<close>, \<^verbatim>\<open>0o\<close> or
  \<^verbatim>\<open>0b\<close>; anything else is NaN.

  A \<open>string\<close> here is the UTF-8 encoding of the JavaScript string, one \<open>char\<close> per
  byte. The string values of a \<^verbatim>\<open>FormData\<close> are scalar value strings, so each has exactly
  one such encoding; U+00A0 followed by the digit 5 is \<open>[CHR 0xC2, CHR 0xA0, CHR ''5'']\<close>.
  The digits, signs and letters of the grammar are ASCII, one byte each, and no byte of
  a longer encoding is below \<open>0x80\<close>.
\<close>

definition utf8 :: "int \<Rightarrow> string" where
  "utf8 c =
     (if c < 0x80 then [char_of c]
      else if c < 0x800 then [char_of (0xC0 + c div 64), char_of (0x80 + c mod 64)]
      else if c < 0x10000
      then [char_of (0xE0 + c div 4096), char_of (0x80 + c div 64 mod 64),
            char_of (0x80 + c mod 64)]
      else [char_of (0xF0 + c div 262144), char_of (0x80 + c div 4096 mod 64),
            char_of (0x80 + c div 64 mod 64), char_of (0x80 + c mod 64)])"

text \<open>
  The code points of StrWhiteSpaceChar: the WhiteSpace of ECMA-262 (TAB, VT, FF, the
  byte order mark U+FEFF and the space separators of Unicode: U+0020, U+00A0, U+1680,
  U+2000 to U+200A, U+202F, U+205F, U+3000) and its LineTerminator (LF, CR, U+2028,
  U+2029).
\<close>

definition white_space_code_points :: "int list" where
  "white_space_code_points =
     [0x09, 0x0A, 0x0B, 0x0C, 0x0D, 0x20, 0xA0, 0x1680,
      0x2000, 0x2001, 0x2002, 0x2003, 0x2004, 0x2005, 0x2006, 0x2007, 0x2008, 0x2009, 0x200A,
      0x2028, 0x2029, 0x202F, 0x205F, 0x3000, 0xFEFF]"

definition white_space :: "string list" where
  "white_space = map utf8 white_space_code_points"

text \<open>
  Removing from the front of a string every occurrence of one of the given byte
  sequences (none of them empty), until the string starts with none of them.
\<close>

fun strip_start :: "string list \<Rightarrow> string \<Rightarrow> string" where
  "strip_start seqs [] = []"
| "strip_start seqs (a # s) =
     (case find (\<lambda>q. take (length q) (a # s) = q) seqs of
        None \<Rightarrow> a # s
      | Some q \<Rightarrow> strip_start seqs (drop (length q - 1) s))"

text \<open>
  White space is trimmed at both ends. At the end the reversed string is matched
  against the reversed encodings: a first byte of an encoding only ever starts a
  character, so a string that ends with the bytes of a white space character ends with
  that character.
\<close>

definition trim :: "string \<Rightarrow> string" where
  "trim s = rev (strip_start (map rev white_space) (rev (strip_start white_space s)))"

definition digit_value :: "char \<Rightarrow> nat option" where
  "digit_value c =
     (let n = of_char c :: nat
      in if 48 \<le> n \<and> n \<le> 57 then Some (n - 48)
         else if 97 \<le> n \<and> n \<le> 102 then Some (n - 87)
         else if 65 \<le> n \<and> n \<le> 70 then Some (n - 55)
         else None)"

definition is_digit_in :: "nat \<Rightarrow> char \<Rightarrow> bool" where
  "is_digit_in base c = (case digit_value c of None \<Rightarrow> False | Some d \<Rightarrow> d < base)"

definition digits_value :: "nat \<Rightarrow> string \<Rightarrow> int" where
  "digits_value base ds =
     foldl (\<lambda>acc c. acc * int base + (case digit_value c of None \<Rightarrow> 0 | Some d \<Rightarrow> int d)) 0 ds"

definition non_decimal_literal :: "string \<Rightarrow> int option" where
  "non_decimal_literal t =
     (case t of
        z # p # ds \<Rightarrow>
          (let base = (if p = CHR ''x'' \<or> p = CHR ''X'' then 16
                       else if p = CHR ''o'' \<or> p = CHR ''O'' then 8
                       else if p = CHR ''b'' \<or> p = CHR ''B'' then 2 else 0 :: nat)
           in if z = CHR ''0'' \<and> base \<noteq> 0 \<and> ds \<noteq> [] \<and> list_all (is_digit_in base) ds
              then Some (digits_value base ds) else None)
      | _ \<Rightarrow> None)"

definition signed_integer :: "string \<Rightarrow> int option" where
  "signed_integer r =
     (let (neg, ds) = (case r of c # r' \<Rightarrow>
                          if c = CHR ''-'' then (True, r')
                          else if c = CHR ''+'' then (False, r') else (False, r)
                       | [] \<Rightarrow> (False, r))
      in if ds \<noteq> [] \<and> list_all (is_digit_in 10) ds
         then Some (if neg then - digits_value 10 ds else digits_value 10 ds)
         else None)"

definition exponent_part :: "string \<Rightarrow> int option" where
  "exponent_part r =
     (case r of [] \<Rightarrow> Some 0
      | c # r' \<Rightarrow> if c = CHR ''e'' \<or> c = CHR ''E'' then signed_integer r' else None)"

definition pow10 :: "int \<Rightarrow> rat" where
  "pow10 e = (if 0 \<le> e then 10 ^ nat e else 1 / 10 ^ nat (- e))"

definition unsigned_decimal_literal :: "string \<Rightarrow> rat option" where
  "unsigned_decimal_literal u =
     (let ip = takeWhile (is_digit_in 10) u;
          r1 = dropWhile (is_digit_in 10) u;
          (fp, r2) = (case r1 of c # r \<Rightarrow>
                         if c = CHR ''.''
                         then (takeWhile (is_digit_in 10) r, dropWhile (is_digit_in 10) r)
                         else ([], r1)
                      | [] \<Rightarrow> ([], r1))
      in if ip = [] \<and> fp = [] then None
         else case exponent_part r2 of
                None \<Rightarrow> None
              | Some ex \<Rightarrow>
                  Some (of_int (digits_value 10 (ip @ fp)) * pow10 (ex - int (length fp))))"

definition str_unsigned :: "string \<Rightarrow> number" where
  "str_unsigned u =
     (if u = ''Infinity'' then PosInfinity
      else case unsigned_decimal_literal u of None \<Rightarrow> NaN | Some v \<Rightarrow> round_double v)"

definition string_to_number :: "string \<Rightarrow> number" where
  "string_to_number s =
     (let t = trim s
      in case t of [] \<Rightarrow> Finite 0
         | c # u \<Rightarrow>
             (case non_decimal_literal t of
                Some n \<Rightarrow> round_double (of_int n)
              | None \<Rightarrow>
                  if c = CHR ''+'' then str_unsigned u
                  else if c = CHR ''-'' then negate (str_unsigned u)
                  else str_unsigned t))"

section \<open>Form data\<close>

text \<open>
  \<^verbatim>\<open>formData.get(name)\<close> is the first entry of that name, a string or a \<^verbatim>\<open>File\<close>, and
  \<^verbatim>\<open>null\<close> when there is none. An object literal is the list of its properties; reading
  a property that is not there gives \<^verbatim>\<open>undefined\<close>.
\<close>

datatype jsval = Undefined | Null | Str string | File

datatype entry = Text string | Blob

type_synonym FormData = "(string \<times> entry) list"

type_synonym object = "(string \<times> jsval) list"

definition formData_get :: "FormData \<Rightarrow> string \<Rightarrow> jsval" where
  "formData_get formData name =
     (case map_of formData name of
        None \<Rightarrow> Null
      | Some (Text s) \<Rightarrow> Str s
      | Some Blob \<Rightarrow> File)"

definition property :: "object \<Rightarrow> string \<Rightarrow> jsval" where
  "property obj key = (case map_of obj key of None \<Rightarrow> Undefined | Some v \<Rightarrow> v)"

fun typeof :: "jsval \<Rightarrow> string" where
  "typeof Undefined = ''undefined''"
| "typeof Null = ''object''"
| "typeof (Str s) = ''string''"
| "typeof File = ''object''"

text \<open>\<^verbatim>\<open>Number(v)\<close>, the coercion of \<^verbatim>\<open>z.coerce.number()\<close>.\<close>

fun to_number :: "jsval \<Rightarrow> number" where
  "to_number Undefined = NaN"
| "to_number Null = Finite 0"
| "to_number (Str s) = string_to_number s"
| "to_number File = NaN"

section \<open>The validator\<close>

text \<open>
  The schemas are built with zod 3 (the \<^verbatim>\<open>invalid_type_error\<close> parameter is its API). A
  field schema maps a raw value to the issues it raises or to the typed value; an issue
  carries its code and its message, and the object schema adds the path. Messages that
  the source does not give are the library's default texts.
\<close>

datatype issue_code = invalid_type | too_small | invalid_enum_value

record ZodIssue =
  code :: issue_code
  path :: "string list"
  issue_message :: string

type_synonym 'a schema = "jsval \<Rightarrow> (issue_code \<times> string) list + 'a"

fun parsed_type :: "jsval \<Rightarrow> string" where
  "parsed_type Undefined = ''undefined''"
| "parsed_type Null = ''null''"
| "parsed_type (Str s) = ''string''"
| "parsed_type File = ''object''"

definition invalid_type_message :: "string option \<Rightarrow> string \<Rightarrow> jsval \<Rightarrow> string" where
  "invalid_type_message invalid_type_error expected v =
     (if v = Undefined then ''Required''
      else case invalid_type_error of
             Some m \<Rightarrow> m
           | None \<Rightarrow> ''Expected '' @ expected @ '', received '' @ parsed_type v)"

definition z_string :: "string option \<Rightarrow> string schema" where
  "z_string invalid_type_error v =
     (case v of
        Str s \<Rightarrow> Inr s
      | _ \<Rightarrow> Inl [(invalid_type, invalid_type_message invalid_type_error ''string'' v)])"

definition z_coerce_number :: "number schema" where
  "z_coerce_number v =
     (let n = to_number v
      in if n = NaN then Inl [(invalid_type, ''Expected number, received nan'')]
         else Inr n)"

text \<open>\<^verbatim>\<open>.gt(value, { message })\<close>: the issue is raised when \<^verbatim>\<open>data <= value\<close>.\<close>

definition gt :: "number schema \<Rightarrow> number \<Rightarrow> string \<Rightarrow> number schema" where
  "gt inner bound msg v =
     (case inner v of
        Inl issues \<Rightarrow> Inl issues
      | Inr n \<Rightarrow> if less_eq_number n bound then Inl [(too_small, msg)] else Inr n)"

definition quoted :: "string \<Rightarrow> string" where
  "quoted s = [CHR 0x27] @ s @ [CHR 0x27]"

fun join_values :: "string list \<Rightarrow> string" where
  "join_values [] = []"
| "join_values [v] = quoted v"
| "join_values (v # vs) = quoted v @ '' | '' @ join_values vs"

definition z_enum :: "string list \<Rightarrow> string option \<Rightarrow> string schema" where
  "z_enum values invalid_type_error v =
     (case v of
        Str s \<Rightarrow>
          if s \<in> set values then Inr s
          else Inl [(invalid_enum_value,
                 ''Invalid enum value. Expected '' @ join_values values @ '', received '' @ quoted s)]
      | _ \<Rightarrow> Inl [(invalid_type, invalid_type_message invalid_type_error (join_values values) v)])"

text \<open>
  An object schema parses every field and collects the issues of all of them, in the
  order of the keys. \<^verbatim>\<open>FormSchema.omit({ id: true, date: true })\<close> leaves the three
  fields \<^verbatim>\<open>customerId\<close>, \<^verbatim>\<open>amount\<close> and \<^verbatim>\<open>status\<close>, so the schemas of \<^verbatim>\<open>id\<close> and
  \<^verbatim>\<open>date\<close> are never consulted.
\<close>

definition issues_at :: "string \<Rightarrow> (issue_code \<times> string) list + 'a \<Rightarrow> ZodIssue list" where
  "issues_at key r =
     (case r of
        Inl issues \<Rightarrow> map (\<lambda>(c, m). \<lparr>code = c, path = [key], issue_message = m\<rparr>) issues
      | Inr _ \<Rightarrow> [])"

definition z_object3 ::
  "string \<times> 'a schema \<Rightarrow> string \<times> 'b schema \<Rightarrow> string \<times> 'c schema \<Rightarrow>
   object \<Rightarrow> ZodIssue list + ('a \<times> 'b \<times> 'c)" where
  "z_object3 f1 f2 f3 obj =
     (let r1 = snd f1 (property obj (fst f1));
          r2 = snd f2 (property obj (fst f2));
          r3 = snd f3 (property obj (fst f3))
      in case (r1, r2, r3) of
           (Inr a, Inr b, Inr c) \<Rightarrow> Inr (a, b, c)
         | _ \<Rightarrow> Inl (issues_at (fst f1) r1 @ issues_at (fst f2) r2 @ issues_at (fst f3) r3))"

text \<open>The schema of the first version of the file (lines 15 to 24).\<close>

definition CreateInvoice_permissive :: "object \<Rightarrow> ZodIssue list + (string \<times> number \<times> string)" where
  "CreateInvoice_permissive =
     z_object3 (''customerId'', z_string None)
               (''amount'', z_coerce_number)
               (''status'', z_enum [''pending'', ''paid''] None)"

definition UpdateInvoice_permissive :: "object \<Rightarrow> ZodIssue list + (string \<times> number \<times> string)" where
  "UpdateInvoice_permissive = CreateInvoice_permissive"

text \<open>The schema of the second version (lines 94 to 103).\<close>

definition CreateInvoice :: "object \<Rightarrow> ZodIssue list + (string \<times> number \<times> string)" where
  "CreateInvoice =
     z_object3 (''customerId'', z_string (Some ''Please select a customer.''))
               (''amount'', gt z_coerce_number (Finite 0) ''Please enter an amount greater than $0.'')
               (''status'', z_enum [''pending'', ''paid''] (Some ''Please select an invoice status.''))"

definition UpdateInvoice :: "object \<Rightarrow> ZodIssue list + (string \<times> number \<times> string)" where
  "UpdateInvoice = CreateInvoice"

text \<open>
  \<^verbatim>\<open>error.flatten().fieldErrors\<close>: the messages of the issues, grouped by the first
  element of the path, the keys in the order of their first issue.
\<close>

fun push_message :: "string \<Rightarrow> string \<Rightarrow> (string \<times> string list) list \<Rightarrow> (string \<times> string list) list" where
  "push_message k m [] = [(k, [m])]"
| "push_message k m ((k', ms) # rest) =
     (if k = k' then (k', ms @ [m]) # rest else (k', ms) # push_message k m rest)"

definition fieldErrors :: "ZodIssue list \<Rightarrow> (string \<times> string list) list" where
  "fieldErrors issues =
     foldl (\<lambda>acc sub. case path sub of [] \<Rightarrow> acc | k # _ \<Rightarrow> push_message k (issue_message sub) acc)
       [] issues"

section \<open>The date stamp\<close>

text \<open>
  \<^verbatim>\<open>new Date().toISOString().split("T")[0]\<close>. The clock is given by the UTC fields of the
  current time; \<^verbatim>\<open>toISOString\<close> prints them as \<^verbatim>\<open>YYYY-MM-DDTHH:mm:ss.sssZ\<close>, the year
  with a sign and six digits when it is not within 0 to 9999.
\<close>

record utc_time =
  year :: int
  month :: nat
  day :: nat
  hours :: nat
  minutes :: nat
  seconds :: nat
  milliseconds :: nat

definition digit_char :: "nat \<Rightarrow> char" where
  "digit_char d = ''0123456789'' ! (d mod 10)"

fun pad :: "nat \<Rightarrow> nat \<Rightarrow> string" where
  "pad 0 n = []"
| "pad (Suc w) n = pad w (n div 10) @ [digit_char n]"

definition year_string :: "int \<Rightarrow> string" where
  "year_string y =
     (if 0 \<le> y \<and> y \<le> 9999 then pad 4 (nat y)
      else (if y < 0 then ''-'' else ''+'') @ pad 6 (nat \<bar>y\<bar>))"

definition toISOString :: "utc_time \<Rightarrow> string" where
  "toISOString t =
     year_string (year t) @ ''-'' @ pad 2 (month t) @ ''-'' @ pad 2 (day t) @ ''T'' @
     pad 2 (hours t) @ '':'' @ pad 2 (minutes t) @ '':'' @ pad 2 (seconds t) @ ''.'' @
     pad 3 (milliseconds t) @ ''Z''"

text \<open>\<^verbatim>\<open>s.split(c)\<close> for a separator of one character: always at least one piece.\<close>

fun split :: "char \<Rightarrow> string \<Rightarrow> string list" where
  "split c [] = [[]]"
| "split c (x # xs) =
     (let ps = split c xs
      in if x = c then [] # ps else (x # hd ps) # tl ps)"

section \<open>The table, the database and the effects of a handler\<close>

text \<open>
  Each handler sends one statement; its parameters are those of the tagged template in
  the source:
  \<^item> \<^verbatim>\<open>INSERT INTO invoices (customer_id, amount, status, date) VALUES (...)\<close>;
  \<^item> \<^verbatim>\<open>UPDATE invoices SET customer_id = .., amount = .., status = .. WHERE id = ..\<close>
    (the last argument of \<open>Update\<close> is the id);
  \<^item> \<^verbatim>\<open>DELETE FROM invoices WHERE id = ..\<close>.
\<close>

datatype statement =
    Insert string number string string
  | Update string number string string
  | Delete string

text \<open>
  Modelled from the spec: the schema of the \<^verbatim>\<open>invoices\<close> table is not under
  \<^verbatim>\<open>src/\<close>. Sections 3 and 6 of the specification give its columns:
  \<^verbatim>\<open>customer_id\<close>, \<^verbatim>\<open>amount\<close> (integer cents), \<^verbatim>\<open>status\<close> (text), \<^verbatim>\<open>date\<close> (a
  calendar date) and an identifier that the store assigns. A row therefore holds an
  integer amount.
\<close>

record invoice =
  inv_id :: string
  inv_customer_id :: string
  inv_amount :: int
  inv_status :: string
  inv_date :: string

text \<open>
  Modelled from the spec: the integer that a statement's amount parameter is, when it is
  a whole number ("amount stored in the database is always an integer number of
  cents", section 3); no other number fits the column.
\<close>

fun integer_cents :: "number \<Rightarrow> int option" where
  "integer_cents (Finite r) = (if of_int \<lfloor>r\<rfloor> = r then Some \<lfloor>r\<rfloor> else None)"
| "integer_cents _ = None"

text \<open>
  Modelled from the spec: the database that executes the statements is not under
  \<^verbatim>\<open>src/\<close>. What a statement does to the table, after sections 3, 4.2 and 6 of the
  specification: INSERT adds one row, its id assigned by the store; UPDATE sets
  \<^verbatim>\<open>customer_id\<close>, \<^verbatim>\<open>amount\<close> and \<^verbatim>\<open>status\<close> of the rows with the given id; DELETE
  removes the rows with the given id. An amount parameter that is not a whole number
  cannot be stored in the integer column: the statement is then a persistence error
  (section 7) and has no effect.
\<close>

fun apply_statement :: "string \<Rightarrow> statement \<Rightarrow> invoice list \<Rightarrow> string + invoice list" where
  "apply_statement fresh (Insert c a s d) rows =
     (case integer_cents a of
        None \<Rightarrow> Inl ''invalid input syntax for type integer''
      | Some n \<Rightarrow>
          Inr (rows @ [\<lparr>inv_id = fresh, inv_customer_id = c, inv_amount = n, inv_status = s,
                         inv_date = d\<rparr>]))"
| "apply_statement fresh (Update c a s i) rows =
     (case integer_cents a of
        None \<Rightarrow> Inl ''invalid input syntax for type integer''
      | Some n \<Rightarrow>
          Inr (map (\<lambda>r. if inv_id r = i
                         then r\<lparr>inv_customer_id := c, inv_amount := n, inv_status := s\<rparr>
                         else r) rows))"
| "apply_statement fresh (Delete i) rows = Inr (filter (\<lambda>r. inv_id r \<noteq> i) rows)"

text \<open>
  The surroundings of a handler: whether the database raises an error of its own for a
  statement on the current table (a constraint, the connection), the id it gives a new
  row, and the clock.
\<close>

record env =
  db_error :: "statement \<Rightarrow> invoice list \<Rightarrow> string option"
  new_id :: "invoice list \<Rightarrow> string"
  now :: utc_time

datatype exn = ZodError "ZodIssue list" | PostgresError string | NEXT_REDIRECT string

datatype event =
    Console_log_object object
  | Console_log string
  | Console_error exn
  | Sql statement
  | RevalidatePath string
  | Redirect string

record world =
  invoices :: "invoice list"
  trace :: "event list"

text \<open>
  A statement of a function body completes normally, returns a value, or throws; the
  next statement runs only after a normal completion, and \<^verbatim>\<open>catch\<close> receives whatever
  the \<^verbatim>\<open>try\<close> block throws. A body that completes normally has reached its end.
\<close>

datatype 'a completion = Normal | Return 'a | Throw exn

type_synonym 'a stmt = "world \<Rightarrow> 'a completion \<times> world"

definition seq :: "'a stmt \<Rightarrow> 'a stmt \<Rightarrow> 'a stmt" where
  "seq s1 s2 w = (case s1 w of (Normal, w') \<Rightarrow> s2 w' | (c, w') \<Rightarrow> (c, w'))"

definition try_catch :: "'a stmt \<Rightarrow> (exn \<Rightarrow> 'a stmt) \<Rightarrow> 'a stmt" where
  "try_catch body handler w = (case body w of (Throw e, w') \<Rightarrow> handler e w' | (c, w') \<Rightarrow> (c, w'))"

definition emit :: "event \<Rightarrow> world \<Rightarrow> world" where
  "emit ev w = w\<lparr>trace := trace w @ [ev]\<rparr>"

definition return_value :: "'a \<Rightarrow> 'a stmt" where
  "return_value v w = (Return v, w)"

definition throw :: "exn \<Rightarrow> 'a stmt" where
  "throw e w = (Throw e, w)"

definition console_log_object :: "object \<Rightarrow> 'a stmt" where
  "console_log_object obj w = (Normal, emit (Console_log_object obj) w)"

definition console_log :: "string \<Rightarrow> 'a stmt" where
  "console_log s w = (Normal, emit (Console_log s) w)"

definition console_error :: "exn \<Rightarrow> 'a stmt" where
  "console_error e w = (Normal, emit (Console_error e) w)"

text \<open>
  Modelled from the spec: a statement either raises a persistence error, of the
  database's own or of the column's type, and the table stays as it was (no partial
  write, section 8), or it takes effect.
\<close>

definition execute :: "env \<Rightarrow> statement \<Rightarrow> invoice list \<Rightarrow> string + invoice list" where
  "execute e st rows =
     (case db_error e st rows of
        Some err \<Rightarrow> Inl err
      | None \<Rightarrow> apply_statement (new_id e rows) st rows)"

text \<open>\<^verbatim>\<open>await sql`...`\<close>: the statement takes effect, or its error is thrown.\<close>

definition sql :: "env \<Rightarrow> statement \<Rightarrow> 'a stmt" where
  "sql e st w =
     (let w1 = emit (Sql st) w
      in case execute e st (invoices w) of
           Inl err \<Rightarrow> (Throw (PostgresError err), w1)
         | Inr rows \<Rightarrow> (Normal, w1\<lparr>invoices := rows\<rparr>))"

definition revalidatePath :: "string \<Rightarrow> 'a stmt" where
  "revalidatePath p w = (Normal, emit (RevalidatePath p) w)"

text \<open>\<^verbatim>\<open>redirect\<close> works by throwing (the comment at line 156 of the source).\<close>

definition redirect :: "string \<Rightarrow> 'a stmt" where
  "redirect p w = (Throw (NEXT_REDIRECT p), emit (Redirect p) w)"

section \<open>The handlers\<close>

record State =
  errors :: "(string \<times> string list) list option"
  message :: "string option"

definition rawFormData_of :: "FormData \<Rightarrow> object" where
  "rawFormData_of formData =
     [(''customerId'', formData_get formData ''customerId''),
      (''amount'', formData_get formData ''amount''),
      (''status'', formData_get formData ''status'')]"

definition today :: "env \<Rightarrow> string" where
  "today e = hd (split CHR ''T'' (toISOString (now e)))"

subsection \<open>First version (lines 26 to 79): \<^verbatim>\<open>parse\<close> throws\<close>

definition createInvoice_permissive :: "env \<Rightarrow> FormData \<Rightarrow> State stmt" where
  "createInvoice_permissive e formData =
     (let rawFormData = rawFormData_of formData
      in seq (console_log_object rawFormData)
        (seq (console_log (typeof (property rawFormData ''amount'')))
          (case CreateInvoice_permissive rawFormData of
             Inl issues \<Rightarrow> throw (ZodError issues)
           | Inr (customerId, amount, status) \<Rightarrow>
               (let amountInCents = times_number amount (Finite 100);
                    date = today e
                in seq (sql e (Insert customerId amountInCents status date))
                    (seq (revalidatePath ''/dashboard/invoices'')
                         (redirect ''/dashboard/invoices''))))))"

definition updateInvoice_permissive :: "env \<Rightarrow> string \<Rightarrow> FormData \<Rightarrow> State stmt" where
  "updateInvoice_permissive e id' formData =
     (case UpdateInvoice_permissive (rawFormData_of formData) of
        Inl issues \<Rightarrow> throw (ZodError issues)
      | Inr (customerId, amount, status) \<Rightarrow>
          (let amountInCents = times_number amount (Finite 100)
           in seq (sql e (Update customerId amountInCents status id'))
               (seq (revalidatePath ''/dashboard/invoices'')
                    (redirect ''/dashboard/invoices''))))"

subsection \<open>Second version (lines 114 to 196): \<^verbatim>\<open>safeParse\<close> and \<^verbatim>\<open>try\<close>/\<^verbatim>\<open>catch\<close>\<close>

definition createInvoice :: "env \<Rightarrow> State \<Rightarrow> FormData \<Rightarrow> State stmt" where
  "createInvoice e prevState formData =
     (let rawFormData = rawFormData_of formData
      in seq (console_log_object rawFormData)
        (seq (console_log (typeof (property rawFormData ''amount'')))
          (case CreateInvoice rawFormData of
             Inl error \<Rightarrow>
               return_value
                 \<lparr>errors = Some (fieldErrors error),
                  message = Some ''Missing fields. Failed to create invoice.''\<rparr>
           | Inr (customerId, amount, status) \<Rightarrow>
               (let amountInCents = times_number amount (Finite 100);
                    date = today e
                in seq (try_catch
                          (sql e (Insert customerId amountInCents status date))
                          (\<lambda>error. return_value
                             \<lparr>errors = None,
                              message = Some ''Database Error: Failed to create invoice.''\<rparr>))
                    (seq (revalidatePath ''/dashboard/invoices'')
                         (redirect ''/dashboard/invoices''))))))"

definition updateInvoice :: "env \<Rightarrow> string \<Rightarrow> State \<Rightarrow> FormData \<Rightarrow> State stmt" where
  "updateInvoice e id' prevState formData =
     (case UpdateInvoice (rawFormData_of formData) of
        Inl error \<Rightarrow>
          return_value
            \<lparr>errors = Some (fieldErrors error),
             message = Some ''Missing fields. Failed to update invoice.''\<rparr>
      | Inr (customerId, amount, status) \<Rightarrow>
          (let amountInCents = times_number amount (Finite 100)
           in seq (try_catch
                     (sql e (Update customerId amountInCents status id'))
                     (\<lambda>error. seq (console_error error)
                        (return_value
                           \<lparr>errors = None,
                            message = Some ''Database Error: Failed to Update Invoice.''\<rparr>)))
               (seq (revalidatePath ''/dashboard/invoices'')
                    (redirect ''/dashboard/invoices''))))"

text \<open>\<^verbatim>\<open>deleteInvoice\<close> is the same text in both versions (lines 76 to 79, 193 to 196).\<close>

definition deleteInvoice :: "env \<Rightarrow> string \<Rightarrow> unit stmt" where
  "deleteInvoice e id' =
     seq (sql e (Delete id')) (revalidatePath ''/dashboard/invoices'')"

section \<open>Observing a run\<close>

text \<open>The events a handler added to the trace, and the kinds of event.\<close>

definition events_since :: "world \<Rightarrow> world \<Rightarrow> event list" where
  "events_since w w' = drop (length (trace w)) (trace w')"

fun is_sql :: "event \<Rightarrow> bool" where
  "is_sql (Sql st) = True"
| "is_sql _ = False"

fun is_revalidate :: "event \<Rightarrow> bool" where
  "is_revalidate (RevalidatePath p) = True"
| "is_revalidate _ = False"

fun is_redirect :: "event \<Rightarrow> bool" where
  "is_redirect (Redirect p) = True"
| "is_redirect _ = False"

text \<open>A statement event that is an UPDATE keyed by the given id.\<close>

fun is_update_of :: "string \<Rightarrow> event \<Rightarrow> bool" where
  "is_update_of i (Sql (Update c a s j)) = (j = i)"
| "is_update_of i _ = False"

text \<open>The two lines \<^verbatim>\<open>createInvoice\<close> logs before it validates.\<close>

definition create_logs :: "FormData \<Rightarrow> event list" where
  "create_logs formData =
     [Console_log_object (rawFormData_of formData),
      Console_log (typeof (formData_get formData ''amount''))]"

text \<open>What the form reads for a field from a returned state: \<^verbatim>\<open>state.errors?.[field]\<close>.\<close>

definition field_messages :: "string \<Rightarrow> State completion \<Rightarrow> string list" where
  "field_messages field c =
     (case c of
        Return r \<Rightarrow>
          (case errors r of
             Some errs \<Rightarrow> (case map_of errs field of Some ms \<Rightarrow> ms | None \<Rightarrow> [])
           | None \<Rightarrow> [])
      | _ \<Rightarrow> [])"

text \<open>The messages of the issues whose path starts with a given key.\<close>

definition messages_for :: "string \<Rightarrow> ZodIssue list \<Rightarrow> string list" where
  "messages_for k issues =
     map issue_message (filter (\<lambda>sub. case path sub of [] \<Rightarrow> False | k' # _ \<Rightarrow> k' = k) issues)"

text \<open>\<^verbatim>\<open>typeof v === "string"\<close>, and membership in the enum of \<^verbatim>\<open>status\<close>.\<close>

fun is_string :: "jsval \<Rightarrow> bool" where
  "is_string (Str s) = True"
| "is_string _ = False"

fun is_status :: "jsval \<Rightarrow> bool" where
  "is_status (Str s) = (s = ''pending'' \<or> s = ''paid'')"
| "is_status _ = False"

text \<open>
  The rounding of the specification's \<^verbatim>\<open>round(amount x 100)\<close>, in its words: the nearest
  whole number, a half going up. The source has no such step.
\<close>

fun spec_round :: "number \<Rightarrow> number" where
  "spec_round (Finite r) = Finite (of_int \<lfloor>r + 1 / 2\<rfloor>)"
| "spec_round n = n"

section \<open>Example surroundings and inputs\<close>

text \<open>
  A database that accepts every statement and one that rejects every statement, a clock,
  a table of one row, and forms: the two scenarios of the specification and variations.
\<close>

definition db_accepts :: "statement \<Rightarrow> invoice list \<Rightarrow> string option" where
  "db_accepts st rows = None"

definition db_rejects :: "statement \<Rightarrow> invoice list \<Rightarrow> string option" where
  "db_rejects st rows = Some ''connection refused''"

definition fixed_id :: "invoice list \<Rightarrow> string" where
  "fixed_id rows = ''inv-new''"

definition clock_example :: utc_time where
  "clock_example =
     \<lparr>year = 2026, month = 11, day = 3, hours = 7, minutes = 5, seconds = 9, milliseconds = 42\<rparr>"

definition env_ok :: env where
  "env_ok = \<lparr>db_error = db_accepts, new_id = fixed_id, now = clock_example\<rparr>"

definition env_down :: env where
  "env_down = \<lparr>db_error = db_rejects, new_id = fixed_id, now = clock_example\<rparr>"

definition row_example :: invoice where
  "row_example =
     \<lparr>inv_id = ''inv-1'', inv_customer_id = ''c7'', inv_amount = 1200,
      inv_status = ''paid'', inv_date = ''2024-02-29''\<rparr>"

definition empty_world :: world where
  "empty_world = \<lparr>invoices = [], trace = []\<rparr>"

definition world_example :: world where
  "world_example = \<lparr>invoices = [row_example], trace = []\<rparr>"

definition no_state :: State where
  "no_state = \<lparr>errors = None, message = None\<rparr>"

definition form_c1 :: FormData where
  "form_c1 =
     [(''customerId'', Text ''c1''), (''amount'', Text ''49.99''), (''status'', Text ''pending'')]"

definition form_empty_customer :: FormData where
  "form_empty_customer =
     [(''customerId'', Text ''''), (''amount'', Text ''0''), (''status'', Text ''paid'')]"

definition form_1999 :: FormData where
  "form_1999 =
     [(''customerId'', Text ''c1''), (''amount'', Text ''19.99''), (''status'', Text ''pending'')]"

definition form_abc :: FormData where
  "form_abc =
     [(''customerId'', Text ''c1''), (''amount'', Text ''abc''), (''status'', Text ''paid'')]"

definition form_minus :: FormData where
  "form_minus =
     [(''customerId'', Text ''c1''), (''amount'', Text ''-5''), (''status'', Text ''paid'')]"

definition form_no_customer :: FormData where
  "form_no_customer = [(''amount'', Text ''49.99''), (''status'', Text ''paid'')]"

text \<open>An amount of U+00A0 followed by the digit 5.\<close>

definition form_nbsp :: FormData where
  "form_nbsp =
     [(''customerId'', Text ''c1''), (''amount'', Text (utf8 0xA0 @ ''5'')), (''status'', Text ''paid'')]"

definition form_no_amount :: FormData where
  "form_no_amount = [(''customerId'', Text ''c1''), (''status'', Text ''pending'')]"

definition form_bad_status :: FormData where
  "form_bad_status =
     [(''customerId'', Text ''c1''), (''amount'', Text ''49.99''), (''status'', Text ''overdue'')]"

section \<open>The rounding is that of binary64\<close>

text \<open>
  Three facts that tie \<open>round_double\<close> to IEEE 754: \<open>ilog2\<close> is the binary exponent,
  a finite result is within half a unit in the last place of the exact value, and every
  value \<open>m * 2 ^ e\<close> with \<open>\<bar>m\<bar> < 2 ^ 53\<close> and an exponent in range, that is every
  double, is rounded to itself.
\<close>

lemma pow2_powi: "pow2 e = 2 powi e"
  by (simp add: pow2_def power_int_def field_simps)

lemma pow2_pos [simp]: "0 < pow2 e"
  by (simp add: pow2_powi)

lemma pow2_nonzero [simp]: "pow2 e \<noteq> 0"
  by (simp add: pow2_powi)

lemma abs_pow2 [simp]: "\<bar>pow2 e\<bar> = pow2 e"
  by (simp add: abs_of_pos)

lemma pow2_nonneg [simp]: "0 \<le> pow2 e"
  by (simp add: less_imp_le)

lemma pow2_add: "pow2 (a + b) = pow2 a * pow2 b"
  by (simp add: pow2_powi power_int_add)

lemma pow2_mono: "a \<le> b \<Longrightarrow> pow2 a \<le> pow2 b"
  by (simp add: pow2_powi power_int_increasing)

lemma pow2_nat: "pow2 (int n) = 2 ^ n"
  by (simp add: pow2_def)

lemma bitlen_bounds:
  "0 < n \<Longrightarrow> 0 < bitlen n \<and> 2 ^ nat (bitlen n - 1) \<le> n \<and> n < 2 ^ nat (bitlen n)"
proof (induction n rule: bitlen.induct)
  case (1 n)
  show ?case
  proof (cases "n div 2 = 0")
    case True
    with "1.prems" have "n = 1" by presburger
    then show ?thesis by (simp add: bitlen.simps [of 1] bitlen.simps [of 0])
  next
    case False
    with "1.prems" have pos: "0 < n div 2" by presburger
    from "1.IH" [OF _ pos] "1.prems"
    have ih: "0 < bitlen (n div 2)" "2 ^ nat (bitlen (n div 2) - 1) \<le> n div 2"
      "n div 2 < 2 ^ nat (bitlen (n div 2))"
      by auto
    have b: "bitlen n = 1 + bitlen (n div 2)"
      using "1.prems" by (simp add: bitlen.simps [of n])
    have e1: "nat (bitlen n - 1) = Suc (nat (bitlen (n div 2) - 1))"
      using ih(1) b by simp
    have e2: "nat (bitlen n) = Suc (nat (bitlen (n div 2)))"
      using ih(1) b by simp
    have "2 * (n div 2) \<le> n" "n < 2 * (n div 2) + 2" by presburger+
    with ih show ?thesis unfolding e1 e2 using b by simp
  qed
qed

lemma bitlen_pow2:
  assumes "0 < n"
  shows "pow2 (bitlen n - 1) \<le> of_int n" "of_int n < pow2 (bitlen n)"
proof -
  from bitlen_bounds [OF assms]
  have b: "0 < bitlen n" "2 ^ nat (bitlen n - 1) \<le> n" "n < 2 ^ nat (bitlen n)" by auto
  have "pow2 (bitlen n - 1) = 2 ^ nat (bitlen n - 1)" using b(1) by (simp add: pow2_def)
  also have "\<dots> = of_int (2 ^ nat (bitlen n - 1))" by simp
  also have "\<dots> \<le> of_int n" using b(2) by (simp only: of_int_le_iff)
  finally show "pow2 (bitlen n - 1) \<le> of_int n" .
  have "(of_int n :: rat) < of_int (2 ^ nat (bitlen n))" using b(3) by (simp only: of_int_less_iff)
  also have "\<dots> = pow2 (bitlen n)" using b(1) by (simp add: pow2_def)
  finally show "of_int n < pow2 (bitlen n)" .
qed

lemma ilog2_bounds:
  assumes "0 < a"
  shows "pow2 (ilog2 a) \<le> a \<and> a < pow2 (ilog2 a + 1)"
proof -
  obtain p q where pq: "quotient_of a = (p, q)" by (cases "quotient_of a")
  have q: "0 < q" using quotient_of_denom_pos [OF pq] .
  have a: "a = of_int p / of_int q" using quotient_of_div [OF pq] .
  have p: "0 < p" using assms q a by (simp add: zero_less_divide_iff)
  let ?k0 = "bitlen p - bitlen q"
  have up: "a < pow2 (?k0 + 1)"
  proof -
    have "of_int p < pow2 (bitlen p)" using bitlen_pow2 [OF p] by simp
    also have "\<dots> = pow2 (?k0 + 1) * pow2 (bitlen q - 1)" by (simp add: pow2_add [symmetric])
    also have "\<dots> \<le> pow2 (?k0 + 1) * of_int q"
      using bitlen_pow2(1) [OF q] by (simp add: mult_left_mono)
    finally show ?thesis using q by (simp add: a pos_divide_less_eq)
  qed
  have low: "pow2 (?k0 - 1) \<le> a"
  proof -
    have "pow2 (?k0 - 1) * of_int q \<le> pow2 (?k0 - 1) * pow2 (bitlen q)"
      using bitlen_pow2(2) [OF q] by (simp add: mult_left_mono)
    also have "\<dots> = pow2 (bitlen p - 1)" by (simp add: pow2_add [symmetric])
    also have "\<dots> \<le> of_int p" using bitlen_pow2 [OF p] by simp
    finally show ?thesis using q by (simp add: a pos_le_divide_eq)
  qed
  show ?thesis
    using up low by (auto simp add: ilog2_def pq Let_def)
qed

lemma ilog2_unique:
  assumes "0 < a" "pow2 k \<le> a" "a < pow2 (k + 1)"
  shows "ilog2 a = k"
proof -
  from ilog2_bounds [OF assms(1)]
  have b: "pow2 (ilog2 a) \<le> a" "a < pow2 (ilog2 a + 1)" by auto
  have "ilog2 a < k + 1"
  proof (rule ccontr)
    assume "\<not> ilog2 a < k + 1"
    then have "pow2 (k + 1) \<le> pow2 (ilog2 a)" by (simp add: pow2_mono)
    with b(1) assms(3) show False by simp
  qed
  moreover have "k < ilog2 a + 1"
  proof (rule ccontr)
    assume "\<not> k < ilog2 a + 1"
    then have "pow2 (ilog2 a + 1) \<le> pow2 k" by (simp add: pow2_mono)
    with b(2) assms(2) show False by simp
  qed
  ultimately show ?thesis by simp
qed

lemma round_half_even_of_int: "round_half_even (of_int n) = n"
  by (simp add: round_half_even_def)

lemma round_half_even_error: "\<bar>of_int (round_half_even y) - y\<bar> \<le> 1 / 2"
proof -
  have "of_int \<lfloor>y\<rfloor> \<le> y" "y < of_int \<lfloor>y\<rfloor> + 1" by linarith+
  then show ?thesis
    by (auto simp add: round_half_even_def Let_def abs_le_iff)
qed

lemma round_double_error:
  assumes "x \<noteq> 0" "round_double x = Finite r"
  shows "\<bar>r - x\<bar> \<le> pow2 (max (ilog2 \<bar>x\<bar> - 52) (- 1074)) / 2"
proof -
  let ?e = "max (ilog2 \<bar>x\<bar> - 52) (- 1074)"
  let ?m = "round_half_even (\<bar>x\<bar> / pow2 ?e)"
  have r: "r = sgn x * of_int ?m * pow2 ?e"
    using assms by (auto simp add: round_double_def Let_def split: if_splits)
  have "r - x = sgn x * of_int ?m * pow2 ?e - sgn x * \<bar>x\<bar>"
    by (simp only: r sgn_mult_abs)
  also have "\<dots> = sgn x * (of_int ?m * pow2 ?e - \<bar>x\<bar>)"
    by (simp only: right_diff_distrib mult.assoc)
  finally have "\<bar>r - x\<bar> = \<bar>sgn x * (of_int ?m * pow2 ?e - \<bar>x\<bar>)\<bar>"
    by simp
  also have "\<dots> = \<bar>of_int ?m * pow2 ?e - \<bar>x\<bar>\<bar>"
    using assms(1) by (simp add: abs_mult abs_sgn_eq)
  also have "\<dots> = \<bar>of_int ?m - \<bar>x\<bar> / pow2 ?e\<bar> * pow2 ?e"
  proof -
    have "of_int ?m * pow2 ?e - \<bar>x\<bar> = (of_int ?m - \<bar>x\<bar> / pow2 ?e) * pow2 ?e"
      by (simp add: field_simps)
    then show ?thesis by (simp add: abs_mult)
  qed
  also have "\<dots> \<le> (1 / 2) * pow2 ?e"
    by (rule mult_right_mono [OF round_half_even_error]) simp
  finally show ?thesis by simp
qed

lemma round_double_exact:
  assumes "\<bar>m\<bar> < 2 ^ 53" "- 1074 \<le> e" "e \<le> 971"
  shows "round_double (of_int m * pow2 e) = Finite (of_int m * pow2 e)"
proof (cases "m = 0")
  case True
  then show ?thesis by (simp add: round_double_def)
next
  case False
  define x :: rat where "x = of_int m * pow2 e"
  define a where "a = \<bar>x\<bar>"
  define e' where "e' = max (ilog2 a - 52) (- 1074)"
  have a: "a = of_int \<bar>m\<bar> * pow2 e" by (simp add: a_def x_def abs_mult)
  have apos: "0 < a" using False by (simp add: a)
  have "a < 2 ^ 53 * pow2 e"
  proof -
    have "(of_int \<bar>m\<bar> :: rat) < of_int (2 ^ 53)" using assms(1) by (simp only: of_int_less_iff)
    then show ?thesis unfolding a by simp
  qed
  also have "\<dots> = pow2 (53 + e)"
  proof -
    have "(2::rat) ^ 53 = pow2 53" by (simp add: pow2_def)
    then show ?thesis by (simp only: pow2_add)
  qed
  finally have lt: "a < pow2 (53 + e)" .
  have "ilog2 a < 53 + e"
  proof (rule ccontr)
    assume "\<not> ilog2 a < 53 + e"
    then have "pow2 (53 + e) \<le> pow2 (ilog2 a)" by (simp add: pow2_mono)
    with ilog2_bounds [OF apos] lt show False by simp
  qed
  then have e': "e' \<le> e" using assms(2) by (simp add: e'_def)
  define d where "d = nat (e - e')"
  have pe: "pow2 e = 2 ^ d * pow2 e'"
  proof -
    have "e = int d + e'" using e' by (simp add: d_def)
    then have "pow2 e = pow2 (int d + e')" by simp
    then show ?thesis by (simp only: pow2_add pow2_nat)
  qed
  have scaled: "a / pow2 e' = of_int (\<bar>m\<bar> * 2 ^ d)"
    by (simp add: a pe)
  have m': "round_half_even (a / pow2 e') = \<bar>m\<bar> * 2 ^ d"
    unfolding scaled by (rule round_half_even_of_int)
  have d0: "e' = 971 \<Longrightarrow> d = 0" using e' assms(3) by (simp add: d_def)
  have no_overflow: "\<not> (971 < e' \<or> (e' = 971 \<and> 2 ^ 53 \<le> round_half_even (a / pow2 e')))"
    using e' assms(1,3) d0 by (auto simp add: m')
  have val: "sgn x * of_int (round_half_even (a / pow2 e')) * pow2 e' = x"
  proof -
    have "sgn x * of_int (\<bar>m\<bar> * 2 ^ d) * pow2 e' = sgn x * (of_int \<bar>m\<bar> * (2 ^ d * pow2 e'))"
      by simp
    also have "\<dots> = sgn x * a" by (simp only: a pe)
    also have "\<dots> = x" unfolding a_def by (rule sgn_mult_abs)
    finally show ?thesis by (simp only: m')
  qed
  have nz: "x \<noteq> 0" using False by (simp add: x_def)
  have "round_double x = Finite x"
    unfolding round_double_def Let_def
    using nz no_overflow val by (simp add: a_def [symmetric] e'_def [symmetric])
  then show ?thesis by (simp only: x_def)
qed

section \<open>Runs of the handlers\<close>

text \<open>
  The three ways a run of \<^verbatim>\<open>createInvoice\<close> or \<^verbatim>\<open>updateInvoice\<close> (second version) can
  go: the form is rejected, the statement raises, or the statement takes effect.
\<close>

lemmas stmt_defs = seq_def try_catch_def sql_def revalidatePath_def redirect_def emit_def
  return_value_def throw_def console_log_def console_log_object_def console_error_def

lemma execute_Inr:
  "execute e st rows = Inr rows' \<longleftrightarrow>
     db_error e st rows = None \<and> apply_statement (new_id e rows) st rows = Inr rows'"
  by (simp add: execute_def split: option.splits)

lemma execute_db_error: "db_error e st rows = Some err \<Longrightarrow> execute e st rows = Inl err"
  by (simp add: execute_def)

lemma execute_Delete:
  "execute e (Delete i) rows =
     (case db_error e (Delete i) rows of
        Some err \<Rightarrow> Inl err
      | None \<Rightarrow> Inr (filter (\<lambda>r. inv_id r \<noteq> i) rows))"
  by (simp add: execute_def split: option.splits)

lemma property_amount [simp]:
  "property (rawFormData_of formData) ''amount'' = formData_get formData ''amount''"
  by (simp add: property_def rawFormData_of_def)

lemma property_customerId [simp]:
  "property (rawFormData_of formData) ''customerId'' = formData_get formData ''customerId''"
  by (simp add: property_def rawFormData_of_def)

lemma property_status [simp]:
  "property (rawFormData_of formData) ''status'' = formData_get formData ''status''"
  by (simp add: property_def rawFormData_of_def)

lemma createInvoice_invalid:
  assumes "CreateInvoice (rawFormData_of formData) = Inl error"
  shows "createInvoice e prevState formData w =
           (Return \<lparr>errors = Some (fieldErrors error),
                    message = Some ''Missing fields. Failed to create invoice.''\<rparr>,
            \<lparr>invoices = invoices w, trace = trace w @ create_logs formData\<rparr>)"
  using assms by (simp add: createInvoice_def stmt_defs create_logs_def)

lemma createInvoice_db_error:
  assumes "CreateInvoice (rawFormData_of formData) = Inr (customerId, amount, status)"
      and "execute e (Insert customerId (times_number amount (Finite 100)) status (today e))
             (invoices w) = Inl err"
  shows "createInvoice e prevState formData w =
           (Return \<lparr>errors = None, message = Some ''Database Error: Failed to create invoice.''\<rparr>,
            \<lparr>invoices = invoices w,
             trace = trace w @ create_logs formData @
               [Sql (Insert customerId (times_number amount (Finite 100)) status (today e))]\<rparr>)"
  using assms by (simp add: createInvoice_def stmt_defs create_logs_def)

lemma createInvoice_written:
  assumes "CreateInvoice (rawFormData_of formData) = Inr (customerId, amount, status)"
      and "execute e (Insert customerId (times_number amount (Finite 100)) status (today e))
             (invoices w) = Inr rows"
  shows "createInvoice e prevState formData w =
           (Throw (NEXT_REDIRECT ''/dashboard/invoices''),
            \<lparr>invoices = rows,
             trace = trace w @ create_logs formData @
               [Sql (Insert customerId (times_number amount (Finite 100)) status (today e)),
                RevalidatePath ''/dashboard/invoices'', Redirect ''/dashboard/invoices'']\<rparr>)"
  using assms by (simp add: createInvoice_def stmt_defs create_logs_def)

lemma updateInvoice_invalid:
  assumes "UpdateInvoice (rawFormData_of formData) = Inl error"
  shows "updateInvoice e i prevState formData w =
           (Return \<lparr>errors = Some (fieldErrors error),
                    message = Some ''Missing fields. Failed to update invoice.''\<rparr>, w)"
  using assms by (simp add: updateInvoice_def stmt_defs)

lemma updateInvoice_db_error:
  assumes "UpdateInvoice (rawFormData_of formData) = Inr (customerId, amount, status)"
      and "execute e (Update customerId (times_number amount (Finite 100)) status i)
             (invoices w) = Inl err"
  shows "updateInvoice e i prevState formData w =
           (Return \<lparr>errors = None, message = Some ''Database Error: Failed to Update Invoice.''\<rparr>,
            \<lparr>invoices = invoices w,
             trace = trace w @
               [Sql (Update customerId (times_number amount (Finite 100)) status i),
                Console_error (PostgresError err)]\<rparr>)"
  using assms by (simp add: updateInvoice_def stmt_defs)

lemma updateInvoice_written:
  assumes "UpdateInvoice (rawFormData_of formData) = Inr (customerId, amount, status)"
      and "execute e (Update customerId (times_number amount (Finite 100)) status i)
             (invoices w) = Inr rows"
  shows "updateInvoice e i prevState formData w =
           (Throw (NEXT_REDIRECT ''/dashboard/invoices''),
            \<lparr>invoices = rows,
             trace = trace w @
               [Sql (Update customerId (times_number amount (Finite 100)) status i),
                RevalidatePath ''/dashboard/invoices'', Redirect ''/dashboard/invoices'']\<rparr>)"
  using assms by (simp add: updateInvoice_def stmt_defs)

text \<open>The runs of the first version: a rejected form and a failed statement are thrown.\<close>

lemma createInvoice_permissive_invalid:
  assumes "CreateInvoice_permissive (rawFormData_of formData) = Inl issues"
  shows "createInvoice_permissive e formData w =
           (Throw (ZodError issues),
            \<lparr>invoices = invoices w, trace = trace w @ create_logs formData\<rparr>)"
  using assms by (simp add: createInvoice_permissive_def stmt_defs create_logs_def)

lemma createInvoice_permissive_db_error:
  assumes "CreateInvoice_permissive (rawFormData_of formData) = Inr (customerId, amount, status)"
      and "execute e (Insert customerId (times_number amount (Finite 100)) status (today e))
             (invoices w) = Inl err"
  shows "createInvoice_permissive e formData w =
           (Throw (PostgresError err),
            \<lparr>invoices = invoices w,
             trace = trace w @ create_logs formData @
               [Sql (Insert customerId (times_number amount (Finite 100)) status (today e))]\<rparr>)"
  using assms by (simp add: createInvoice_permissive_def stmt_defs create_logs_def)

lemma createInvoice_permissive_written:
  assumes "CreateInvoice_permissive (rawFormData_of formData) = Inr (customerId, amount, status)"
      and "execute e (Insert customerId (times_number amount (Finite 100)) status (today e))
             (invoices w) = Inr rows"
  shows "createInvoice_permissive e formData w =
           (Throw (NEXT_REDIRECT ''/dashboard/invoices''),
            \<lparr>invoices = rows,
             trace = trace w @ create_logs formData @
               [Sql (Insert customerId (times_number amount (Finite 100)) status (today e)),
                RevalidatePath ''/dashboard/invoices'', Redirect ''/dashboard/invoices'']\<rparr>)"
  using assms by (simp add: createInvoice_permissive_def stmt_defs create_logs_def)

lemma updateInvoice_permissive_invalid:
  assumes "UpdateInvoice_permissive (rawFormData_of formData) = Inl issues"
  shows "updateInvoice_permissive e i formData w = (Throw (ZodError issues), w)"
  using assms by (simp add: updateInvoice_permissive_def stmt_defs)

lemma updateInvoice_permissive_db_error:
  assumes "UpdateInvoice_permissive (rawFormData_of formData) = Inr (customerId, amount, status)"
      and "execute e (Update customerId (times_number amount (Finite 100)) status i)
             (invoices w) = Inl err"
  shows "updateInvoice_permissive e i formData w =
           (Throw (PostgresError err),
            \<lparr>invoices = invoices w,
             trace = trace w @
               [Sql (Update customerId (times_number amount (Finite 100)) status i)]\<rparr>)"
  using assms by (simp add: updateInvoice_permissive_def stmt_defs)

lemma updateInvoice_permissive_written:
  assumes "UpdateInvoice_permissive (rawFormData_of formData) = Inr (customerId, amount, status)"
      and "execute e (Update customerId (times_number amount (Finite 100)) status i)
             (invoices w) = Inr rows"
  shows "updateInvoice_permissive e i formData w =
           (Throw (NEXT_REDIRECT ''/dashboard/invoices''),
            \<lparr>invoices = rows,
             trace = trace w @
               [Sql (Update customerId (times_number amount (Finite 100)) status i),
                RevalidatePath ''/dashboard/invoices'', Redirect ''/dashboard/invoices'']\<rparr>)"
  using assms by (simp add: updateInvoice_permissive_def stmt_defs)

section \<open>What the validator reports\<close>

lemma map_of_push_message:
  "map_of (push_message k m acc) k' =
     (if k' = k then Some ((case map_of acc k of None \<Rightarrow> [] | Some ms \<Rightarrow> ms) @ [m])
      else map_of acc k')"
  by (induction k m acc rule: push_message.induct) auto

lemma map_of_foldl_push:
  "map_of (foldl (\<lambda>acc sub. case path sub of [] \<Rightarrow> acc
                               | k # _ \<Rightarrow> push_message k (issue_message sub) acc) acc issues) k =
     (if messages_for k issues = [] then map_of acc k
      else Some ((case map_of acc k of None \<Rightarrow> [] | Some ms \<Rightarrow> ms) @ messages_for k issues))"
proof (induction issues arbitrary: acc)
  case Nil
  show ?case by (simp add: messages_for_def)
next
  case (Cons sub issues)
  show ?case
    by (cases "path sub") (auto simp add: Cons.IH messages_for_def map_of_push_message)
qed

lemma map_of_fieldErrors:
  "map_of (fieldErrors issues) k =
     (if messages_for k issues = [] then None else Some (messages_for k issues))"
  by (simp add: fieldErrors_def map_of_foldl_push)

lemma messages_for_append [simp]:
  "messages_for k (xs @ ys) = messages_for k xs @ messages_for k ys"
  by (simp add: messages_for_def)

lemma messages_for_issues_at:
  "messages_for k (issues_at k' r) =
     (if k = k' then (case r of Inl issues \<Rightarrow> map snd issues | Inr _ \<Rightarrow> []) else [])"
  by (auto simp add: messages_for_def issues_at_def comp_def split: sum.splits prod.splits)

lemma z_object3_issues:
  assumes "z_object3 (k1, p1) (k2, p2) (k3, p3) obj = Inl issues"
  shows "issues = issues_at k1 (p1 (property obj k1)) @ issues_at k2 (p2 (property obj k2)) @
                  issues_at k3 (p3 (property obj k3))"
  using assms by (auto simp add: z_object3_def Let_def split: sum.splits)

lemma z_object3_Inl:
  assumes "isl (p1 (property obj k1)) \<or> isl (p2 (property obj k2)) \<or> isl (p3 (property obj k3))"
  shows "z_object3 (k1, p1) (k2, p2) (k3, p3) obj =
           Inl (issues_at k1 (p1 (property obj k1)) @ issues_at k2 (p2 (property obj k2)) @
                issues_at k3 (p3 (property obj k3)))"
  using assms by (auto simp add: z_object3_def Let_def split: sum.splits)

lemma z_object3_Inr:
  assumes "p1 (property obj k1) = Inr a" "p2 (property obj k2) = Inr b" "p3 (property obj k3) = Inr c"
  shows "z_object3 (k1, p1) (k2, p2) (k3, p3) obj = Inr (a, b, c)"
  using assms by (simp add: z_object3_def)

lemma amount_rejected:
  assumes "to_number v = NaN \<or> less_eq_number (to_number v) (Finite 0)"
  shows "gt z_coerce_number (Finite 0) ''Please enter an amount greater than $0.'' v =
           Inl [if to_number v = NaN then (invalid_type, ''Expected number, received nan'')
                else (too_small, ''Please enter an amount greater than $0.'')]"
  using assms by (auto simp add: gt_def z_coerce_number_def Let_def)

lemma CreateInvoice_amount_rejected:
  assumes "to_number (formData_get formData ''amount'') = NaN \<or>
           less_eq_number (to_number (formData_get formData ''amount'')) (Finite 0)"
  shows "\<exists>issues. CreateInvoice (rawFormData_of formData) = Inl issues \<and>
           messages_for ''amount'' issues =
             [if to_number (formData_get formData ''amount'') = NaN
              then ''Expected number, received nan''
              else ''Please enter an amount greater than $0.'']"
  unfolding CreateInvoice_def
  by (subst z_object3_Inl) (simp_all add: amount_rejected [OF assms] messages_for_issues_at)

section \<open>The example inputs, evaluated\<close>

text \<open>The scenario of the specification, \<^verbatim>\<open>{customerId:"c1", amount:"49.99", status:"pending"}\<close>.\<close>

lemma form_c1_valid:
  "CreateInvoice (rawFormData_of form_c1) = Inr (''c1'', string_to_number ''49.99'', ''pending'')"
  by code_simp

lemma cents_4999: "times_number (string_to_number ''49.99'') (Finite 100) = Finite 4999"
  by code_simp

lemma today_example: "today env_ok = ''2026-11-03''" "today env_down = ''2026-11-03''"
  by code_simp+

lemma env_down_error: "execute env_down st rows = Inl ''connection refused''"
  by (simp add: execute_def env_down_def db_rejects_def)

lemma env_ok_error: "db_error env_ok st rows = None"
  by (simp add: env_ok_def db_accepts_def)

lemma env_ok_new_id: "new_id env_ok rows = ''inv-new''"
  by (simp add: env_ok_def fixed_id_def)

lemma env_ok_insert_c1:
  "execute env_ok (Insert c (times_number (string_to_number ''49.99'') (Finite 100)) s d) rows =
     Inr (rows @ [\<lparr>inv_id = ''inv-new'', inv_customer_id = c, inv_amount = 4999, inv_status = s,
                    inv_date = d\<rparr>])"
  by (simp add: execute_def env_ok_error env_ok_new_id cents_4999)

lemma env_ok_update_c1:
  "execute env_ok (Update c (times_number (string_to_number ''49.99'') (Finite 100)) s i) rows =
     Inr (map (\<lambda>r. if inv_id r = i
                    then r\<lparr>inv_customer_id := c, inv_amount := 4999, inv_status := s\<rparr>
                    else r) rows)"
  by (simp add: execute_def env_ok_error cents_4999)

lemma form_c1_valid_update:
  "UpdateInvoice (rawFormData_of form_c1) = Inr (''c1'', string_to_number ''49.99'', ''pending'')"
  by (simp add: UpdateInvoice_def form_c1_valid)

text \<open>
  White space beyond ASCII is trimmed as \<^verbatim>\<open>Number\<close> trims it: the amount that is
  U+00A0 followed by the digit 5 is the number 5, and both versions of
  \<^verbatim>\<open>updateInvoice\<close> send the UPDATE with 500.
\<close>

lemma no_break_space_bytes: "utf8 0xA0 @ ''5'' = [CHR 0xC2, CHR 0xA0, CHR ''5'']"
  by code_simp

lemma number_after_no_break_space: "string_to_number (utf8 0xA0 @ ''5'') = Finite 5"
  by code_simp

lemma number_between_white_space:
  "string_to_number (utf8 0xFEFF @ utf8 0x2003 @ ''4.5'' @ utf8 0x3000 @ utf8 0x2029 @ utf8 0x0A) =
     Finite (9 / 2)"
  by code_simp

lemma updateInvoice_no_break_space:
  "filter is_sql (trace (snd (updateInvoice env_ok ''inv-1'' no_state form_nbsp world_example))) =
     [Sql (Update ''c1'' (Finite 500) ''paid'' ''inv-1'')]"
  "filter is_sql (trace (snd (updateInvoice_permissive env_ok ''inv-1'' form_nbsp world_example))) =
     [Sql (Update ''c1'' (Finite 500) ''paid'' ''inv-1'')]"
  by code_simp+

lemma not_numeric_abc: "string_to_number ''abc'' = NaN"
  by code_simp

lemma not_positive_minus: "string_to_number ''-5'' = Finite (- 5)"
  by code_simp

section \<open>Persistence failures\<close>

text \<open>
  C2. Whenever the statement sent by \<^verbatim>\<open>createInvoice\<close> or \<^verbatim>\<open>updateInvoice\<close> (second
  version) raises an error, the handler returns an object that holds the generic message
  only (no \<^verbatim>\<open>errors\<close> field), the listing route is not invalidated, nothing redirects
  and the table is as it was.
\<close>

theorem persistence_failure_result:
  "(createInvoice e prevState formData w = (c, w') \<and> Sql st \<in> set (events_since w w') \<and>
      execute e st (invoices w) = Inl err \<longrightarrow>
      c = Return \<lparr>errors = None, message = Some ''Database Error: Failed to create invoice.''\<rparr> \<and>
      invoices w' = invoices w \<and>
      filter is_revalidate (events_since w w') = [] \<and>
      filter is_redirect (events_since w w') = []) \<and>
   (updateInvoice e i prevState formData w = (c, w') \<and> Sql st \<in> set (events_since w w') \<and>
      execute e st (invoices w) = Inl err \<longrightarrow>
      c = Return \<lparr>errors = None, message = Some ''Database Error: Failed to Update Invoice.''\<rparr> \<and>
      invoices w' = invoices w \<and>
      filter is_revalidate (events_since w w') = [] \<and>
      filter is_redirect (events_since w w') = [])"
proof (rule conjI; rule impI)
  assume a: "createInvoice e prevState formData w = (c, w') \<and> Sql st \<in> set (events_since w w') \<and>
      execute e st (invoices w) = Inl err"
  show "c = Return \<lparr>errors = None, message = Some ''Database Error: Failed to create invoice.''\<rparr> \<and>
      invoices w' = invoices w \<and>
      filter is_revalidate (events_since w w') = [] \<and>
      filter is_redirect (events_since w w') = []"
  proof (cases "CreateInvoice (rawFormData_of formData)")
    case (Inl error)
    from createInvoice_invalid [OF Inl, of e prevState w] a show ?thesis
      by (auto simp add: events_since_def create_logs_def)
  next
    case (Inr d)
    obtain customerId amount status where d: "d = (customerId, amount, status)"
      by (cases d) auto
    note parsed = Inr [unfolded d]
    show ?thesis
    proof (cases "execute e (Insert customerId (times_number amount (Finite 100)) status (today e)) (invoices w)")
      case (Inr rows)
      from createInvoice_written [OF parsed Inr, of prevState] a show ?thesis
        by (auto simp add: events_since_def create_logs_def Inr)
    next
      case (Inl err')
      from createInvoice_db_error [OF parsed Inl, of prevState] a show ?thesis
        by (auto simp add: events_since_def create_logs_def)
    qed
  qed
next
  assume a: "updateInvoice e i prevState formData w = (c, w') \<and> Sql st \<in> set (events_since w w') \<and>
      execute e st (invoices w) = Inl err"
  show "c = Return \<lparr>errors = None, message = Some ''Database Error: Failed to Update Invoice.''\<rparr> \<and>
      invoices w' = invoices w \<and>
      filter is_revalidate (events_since w w') = [] \<and>
      filter is_redirect (events_since w w') = []"
  proof (cases "UpdateInvoice (rawFormData_of formData)")
    case (Inl error)
    from updateInvoice_invalid [OF Inl, of e i prevState w] a show ?thesis
      by (auto simp add: events_since_def)
  next
    case (Inr d)
    obtain customerId amount status where d: "d = (customerId, amount, status)"
      by (cases d) auto
    note parsed = Inr [unfolded d]
    show ?thesis
    proof (cases "execute e (Update customerId (times_number amount (Finite 100)) status i) (invoices w)")
      case (Inr rows)
      from updateInvoice_written [OF parsed Inr, of prevState] a show ?thesis
        by (auto simp add: events_since_def Inr)
    next
      case (Inl err')
      from updateInvoice_db_error [OF parsed Inl, of prevState] a show ?thesis
        by (auto simp add: events_since_def)
    qed
  qed
qed

theorem persistence_failure_result_witness:
  "createInvoice env_down no_state form_c1 world_example =
     (Return \<lparr>errors = None, message = Some ''Database Error: Failed to create invoice.''\<rparr>,
      \<lparr>invoices = [row_example],
       trace = create_logs form_c1 @ [Sql (Insert ''c1'' (Finite 4999) ''pending'' ''2026-11-03'')]\<rparr>) \<and>
   execute env_down (Insert ''c1'' (Finite 4999) ''pending'' ''2026-11-03'') (invoices world_example)
     = Inl ''connection refused'' \<and>
   filter is_revalidate (events_since world_example
       \<lparr>invoices = [row_example],
        trace = create_logs form_c1 @ [Sql (Insert ''c1'' (Finite 4999) ''pending'' ''2026-11-03'')]\<rparr>) = [] \<and>
   updateInvoice env_down ''inv-1'' no_state form_c1 world_example =
     (Return \<lparr>errors = None, message = Some ''Database Error: Failed to Update Invoice.''\<rparr>,
      \<lparr>invoices = [row_example],
       trace = [Sql (Update ''c1'' (Finite 4999) ''pending'' ''inv-1''),
                Console_error (PostgresError ''connection refused'')]\<rparr>) \<and>
   execute env_down (Update ''c1'' (Finite 4999) ''pending'' ''inv-1'') (invoices world_example)
     = Inl ''connection refused'' \<and>
   filter is_redirect (events_since world_example
       \<lparr>invoices = [row_example],
       trace = [Sql (Update ''c1'' (Finite 4999) ''pending'' ''inv-1''),
                Console_error (PostgresError ''connection refused'')]\<rparr>) = []"
proof -
  let ?st = "Insert ''c1'' (Finite 4999) ''pending'' ''2026-11-03''"
  let ?w' = "\<lparr>invoices = [row_example], trace = create_logs form_c1 @ [Sql ?st]\<rparr>"
  let ?c = "Return \<lparr>errors = None, message = Some ''Database Error: Failed to create invoice.''\<rparr>"
  let ?st2 = "Update ''c1'' (Finite 4999) ''pending'' ''inv-1''"
  let ?w2 = "\<lparr>invoices = [row_example],
              trace = [Sql ?st2, Console_error (PostgresError ''connection refused'')]\<rparr>"
  let ?c2 = "Return \<lparr>errors = None, message = Some ''Database Error: Failed to Update Invoice.''\<rparr>"
  have run: "createInvoice env_down no_state form_c1 world_example = (?c, ?w')"
    using createInvoice_db_error [OF form_c1_valid env_down_error, where w = world_example
        and prevState = no_state]
    by (simp add: cents_4999 today_example world_example_def)
  have run2: "updateInvoice env_down ''inv-1'' no_state form_c1 world_example = (?c2, ?w2)"
    using updateInvoice_db_error [OF form_c1_valid_update env_down_error, where w = world_example
        and prevState = no_state and i = "''inv-1''"]
    by (simp add: cents_4999 world_example_def)
  have ev: "Sql ?st \<in> set (events_since world_example ?w')"
    by (simp add: events_since_def world_example_def)
  have ev2: "Sql ?st2 \<in> set (events_since world_example ?w2)"
    by (simp add: events_since_def world_example_def)
  from persistence_failure_result [of env_down no_state form_c1 world_example ?c ?w' ?st
      "''connection refused''"] run ev env_down_error
  have r1: "filter is_revalidate (events_since world_example ?w') = []"
    by blast
  from persistence_failure_result [of env_down no_state form_c1 world_example ?c2 ?w2 ?st2
      "''connection refused''" "''inv-1''"] run2 ev2 env_down_error
  have r2: "filter is_redirect (events_since world_example ?w2) = []"
    by blast
  from run run2 r1 r2 env_down_error show ?thesis
    by blast
qed

section \<open>Order of the effects\<close>

text \<open>
  C4. In \<^verbatim>\<open>createInvoice\<close> and \<^verbatim>\<open>updateInvoice\<close> (second version), whenever the listing
  route is invalidated or the redirect is executed, the events of the run end with the
  statement, then the invalidation, then the redirect; no other statement, invalidation
  or redirect comes before; the database accepted the statement and the table holds
  its effect; and the redirect's signal is the completion of the handler, so the
  \<^verbatim>\<open>catch\<close> of the persistence error did not take it.
\<close>

theorem invalidate_redirect_only_after_write:
  "(createInvoice e prevState formData w = (c, w') \<and> ev \<in> set (events_since w w') \<and>
      (is_revalidate ev \<or> is_redirect ev) \<longrightarrow>
      (\<exists>before st. events_since w w' =
           before @ [Sql st, RevalidatePath ''/dashboard/invoices'', Redirect ''/dashboard/invoices''] \<and>
         filter is_sql before = [] \<and> filter is_revalidate before = [] \<and>
         filter is_redirect before = [] \<and>
         db_error e st (invoices w) = None \<and>
         apply_statement (new_id e (invoices w)) st (invoices w) = Inr (invoices w') \<and>
         c = Throw (NEXT_REDIRECT ''/dashboard/invoices''))) \<and>
   (updateInvoice e i prevState formData w = (c, w') \<and> ev \<in> set (events_since w w') \<and>
      (is_revalidate ev \<or> is_redirect ev) \<longrightarrow>
      (\<exists>before st. events_since w w' =
           before @ [Sql st, RevalidatePath ''/dashboard/invoices'', Redirect ''/dashboard/invoices''] \<and>
         filter is_sql before = [] \<and> filter is_revalidate before = [] \<and>
         filter is_redirect before = [] \<and>
         db_error e st (invoices w) = None \<and>
         apply_statement (new_id e (invoices w)) st (invoices w) = Inr (invoices w') \<and>
         c = Throw (NEXT_REDIRECT ''/dashboard/invoices'')))"
proof (rule conjI; rule impI)
  assume a: "createInvoice e prevState formData w = (c, w') \<and> ev \<in> set (events_since w w') \<and>
      (is_revalidate ev \<or> is_redirect ev)"
  let ?goal = "\<exists>before st. events_since w w' =
           before @ [Sql st, RevalidatePath ''/dashboard/invoices'', Redirect ''/dashboard/invoices''] \<and>
         filter is_sql before = [] \<and> filter is_revalidate before = [] \<and>
         filter is_redirect before = [] \<and>
         db_error e st (invoices w) = None \<and>
         apply_statement (new_id e (invoices w)) st (invoices w) = Inr (invoices w') \<and>
         c = Throw (NEXT_REDIRECT ''/dashboard/invoices'')"
  show ?goal
  proof (cases "CreateInvoice (rawFormData_of formData)")
    case (Inl error)
    from createInvoice_invalid [OF Inl, of e prevState w] a show ?thesis
      by (auto simp add: events_since_def create_logs_def)
  next
    case (Inr d)
    obtain customerId amount status where d: "d = (customerId, amount, status)"
      by (cases d) auto
    note parsed = Inr [unfolded d]
    let ?st = "Insert customerId (times_number amount (Finite 100)) status (today e)"
    show ?thesis
    proof (cases "execute e ?st (invoices w)")
      case (Inr rows)
      from createInvoice_written [OF parsed Inr, of prevState] a
      have "events_since w w' = create_logs formData @
              [Sql ?st, RevalidatePath ''/dashboard/invoices'', Redirect ''/dashboard/invoices'']"
        and "invoices w' = rows"
        and "c = Throw (NEXT_REDIRECT ''/dashboard/invoices'')"
        by (auto simp add: events_since_def)
      moreover from Inr have "db_error e ?st (invoices w) = None"
        and "apply_statement (new_id e (invoices w)) ?st (invoices w) = Inr rows"
        by (simp_all add: execute_Inr)
      moreover have "filter is_sql (create_logs formData) = []"
        "filter is_revalidate (create_logs formData) = []"
        "filter is_redirect (create_logs formData) = []"
        by (simp_all add: create_logs_def)
      ultimately show ?thesis by blast
    next
      case (Inl err')
      from createInvoice_db_error [OF parsed Inl, of prevState] a show ?thesis
        by (auto simp add: events_since_def create_logs_def)
    qed
  qed
next
  assume a: "updateInvoice e i prevState formData w = (c, w') \<and> ev \<in> set (events_since w w') \<and>
      (is_revalidate ev \<or> is_redirect ev)"
  let ?goal = "\<exists>before st. events_since w w' =
           before @ [Sql st, RevalidatePath ''/dashboard/invoices'', Redirect ''/dashboard/invoices''] \<and>
         filter is_sql before = [] \<and> filter is_revalidate before = [] \<and>
         filter is_redirect before = [] \<and>
         db_error e st (invoices w) = None \<and>
         apply_statement (new_id e (invoices w)) st (invoices w) = Inr (invoices w') \<and>
         c = Throw (NEXT_REDIRECT ''/dashboard/invoices'')"
  show ?goal
  proof (cases "UpdateInvoice (rawFormData_of formData)")
    case (Inl error)
    from updateInvoice_invalid [OF Inl, of e i prevState w] a show ?thesis
      by (auto simp add: events_since_def)
  next
    case (Inr d)
    obtain customerId amount status where d: "d = (customerId, amount, status)"
      by (cases d) auto
    note parsed = Inr [unfolded d]
    let ?st = "Update customerId (times_number amount (Finite 100)) status i"
    show ?thesis
    proof (cases "execute e ?st (invoices w)")
      case (Inr rows)
      from updateInvoice_written [OF parsed Inr, of prevState] a
      have "events_since w w' = [] @
              [Sql ?st, RevalidatePath ''/dashboard/invoices'', Redirect ''/dashboard/invoices'']"
        and "invoices w' = rows"
        and "c = Throw (NEXT_REDIRECT ''/dashboard/invoices'')"
        by (auto simp add: events_since_def)
      moreover from Inr have "db_error e ?st (invoices w) = None"
        and "apply_statement (new_id e (invoices w)) ?st (invoices w) = Inr rows"
        by (simp_all add: execute_Inr)
      moreover have "filter is_sql ([] :: event list) = []"
        "filter is_revalidate ([] :: event list) = []"
        "filter is_redirect ([] :: event list) = []"
        by simp_all
      ultimately show ?thesis by blast
    next
      case (Inl err')
      from updateInvoice_db_error [OF parsed Inl, of prevState] a show ?thesis
        by (auto simp add: events_since_def)
    qed
  qed
qed

theorem invalidate_redirect_only_after_write_witness:
  "createInvoice env_ok no_state form_c1 world_example =
     (Throw (NEXT_REDIRECT ''/dashboard/invoices''),
      \<lparr>invoices = [row_example,
         \<lparr>inv_id = ''inv-new'', inv_customer_id = ''c1'', inv_amount = 4999,
          inv_status = ''pending'', inv_date = ''2026-11-03''\<rparr>],
       trace = create_logs form_c1 @
         [Sql (Insert ''c1'' (Finite 4999) ''pending'' ''2026-11-03''),
          RevalidatePath ''/dashboard/invoices'', Redirect ''/dashboard/invoices'']\<rparr>) \<and>
   updateInvoice env_ok ''inv-1'' no_state form_c1 world_example =
     (Throw (NEXT_REDIRECT ''/dashboard/invoices''),
      \<lparr>invoices = [\<lparr>inv_id = ''inv-1'', inv_customer_id = ''c1'', inv_amount = 4999,
          inv_status = ''pending'', inv_date = ''2024-02-29''\<rparr>],
       trace = [Sql (Update ''c1'' (Finite 4999) ''pending'' ''inv-1''),
          RevalidatePath ''/dashboard/invoices'', Redirect ''/dashboard/invoices'']\<rparr>) \<and>
   (\<exists>before st.
      events_since world_example (snd (createInvoice env_ok no_state form_c1 world_example)) =
        before @ [Sql st, RevalidatePath ''/dashboard/invoices'', Redirect ''/dashboard/invoices''] \<and>
      filter is_redirect before = [] \<and> db_error env_ok st (invoices world_example) = None) \<and>
   (\<exists>before st.
      events_since world_example (snd (updateInvoice env_ok ''inv-1'' no_state form_c1 world_example)) =
        before @ [Sql st, RevalidatePath ''/dashboard/invoices'', Redirect ''/dashboard/invoices''] \<and>
      filter is_redirect before = [] \<and> db_error env_ok st (invoices world_example) = None)"
proof -
  let ?L = "''/dashboard/invoices''"
  let ?w1 = "\<lparr>invoices = [row_example,
         \<lparr>inv_id = ''inv-new'', inv_customer_id = ''c1'', inv_amount = 4999,
          inv_status = ''pending'', inv_date = ''2026-11-03''\<rparr>],
       trace = create_logs form_c1 @
         [Sql (Insert ''c1'' (Finite 4999) ''pending'' ''2026-11-03''),
          RevalidatePath ?L, Redirect ?L]\<rparr>"
  let ?w2 = "\<lparr>invoices = [\<lparr>inv_id = ''inv-1'', inv_customer_id = ''c1'', inv_amount = 4999,
          inv_status = ''pending'', inv_date = ''2024-02-29''\<rparr>],
       trace = [Sql (Update ''c1'' (Finite 4999) ''pending'' ''inv-1''),
          RevalidatePath ?L, Redirect ?L]\<rparr>"
  have run1: "createInvoice env_ok no_state form_c1 world_example = (Throw (NEXT_REDIRECT ?L), ?w1)"
    by (simp add: createInvoice_written [OF form_c1_valid env_ok_insert_c1] cents_4999
          today_example world_example_def)
  have run2: "updateInvoice env_ok ''inv-1'' no_state form_c1 world_example =
                (Throw (NEXT_REDIRECT ?L), ?w2)"
    by (simp add: updateInvoice_written [OF form_c1_valid_update env_ok_update_c1] cents_4999
          world_example_def row_example_def)
  have ev1: "Redirect ?L \<in> set (events_since world_example ?w1)"
    by (simp add: events_since_def world_example_def)
  have ev2: "Redirect ?L \<in> set (events_since world_example ?w2)"
    by (simp add: events_since_def world_example_def)
  have k: "is_revalidate (Redirect ?L) \<or> is_redirect (Redirect ?L)"
    by simp
  from invalidate_redirect_only_after_write [where e = env_ok and prevState = no_state
      and formData = form_c1 and w = world_example and c = "Throw (NEXT_REDIRECT ?L)"
      and w' = ?w1 and ev = "Redirect ?L"] run1 ev1 k
  have c1: "\<exists>before st. events_since world_example ?w1 =
        before @ [Sql st, RevalidatePath ?L, Redirect ?L] \<and>
      filter is_redirect before = [] \<and> db_error env_ok st (invoices world_example) = None"
    by blast
  from invalidate_redirect_only_after_write [where e = env_ok and prevState = no_state
      and formData = form_c1 and w = world_example and c = "Throw (NEXT_REDIRECT ?L)"
      and w' = ?w2 and ev = "Redirect ?L" and i = "''inv-1''"] run2 ev2 k
  have c2: "\<exists>before st. events_since world_example ?w2 =
        before @ [Sql st, RevalidatePath ?L, Redirect ?L] \<and>
      filter is_redirect before = [] \<and> db_error env_ok st (invoices world_example) = None"
    by blast
  show ?thesis
    using run1 run2 c1 c2 by simp
qed

section \<open>Properties of \<^verbatim>\<open>deleteInvoice\<close>\<close>

text \<open>
  C7. For every id, \<^verbatim>\<open>deleteInvoice\<close> sends the DELETE keyed by that id, with no check
  of the id before it, and then invalidates the listing route. When the DELETE raises,
  the error leaves the handler as it is (no result object is returned) and the route is
  not invalidated.
\<close>

theorem deleteInvoice_error_uncaught:
  "(db_error e (Delete i) (invoices w) = None \<longrightarrow>
      deleteInvoice e i w =
        (Normal, \<lparr>invoices = filter (\<lambda>r. inv_id r \<noteq> i) (invoices w),
                  trace = trace w @ [Sql (Delete i), RevalidatePath ''/dashboard/invoices'']\<rparr>)) \<and>
   (db_error e (Delete i) (invoices w) = Some err \<longrightarrow>
      deleteInvoice e i w =
        (Throw (PostgresError err),
         \<lparr>invoices = invoices w, trace = trace w @ [Sql (Delete i)]\<rparr>))"
  by (simp add: deleteInvoice_def seq_def sql_def revalidatePath_def emit_def execute_Delete)

theorem deleteInvoice_error_uncaught_witness:
  "db_error env_ok (Delete '''') (invoices world_example) = None \<and>
   deleteInvoice env_ok '''' world_example =
     (Normal, \<lparr>invoices = [row_example],
               trace = [Sql (Delete ''''), RevalidatePath ''/dashboard/invoices'']\<rparr>) \<and>
   db_error env_down (Delete ''inv-1'') (invoices world_example) = Some ''connection refused'' \<and>
   deleteInvoice env_down ''inv-1'' world_example =
     (Throw (PostgresError ''connection refused''),
      \<lparr>invoices = [row_example], trace = [Sql (Delete ''inv-1'')]\<rparr>)"
  using deleteInvoice_error_uncaught [of env_ok "''''" world_example]
        deleteInvoice_error_uncaught [of env_down "''inv-1''" world_example "''connection refused''"]
  by (simp add: env_ok_def env_down_def db_accepts_def db_rejects_def world_example_def
        row_example_def)

text \<open>
  C10. When the DELETE succeeds, \<^verbatim>\<open>deleteInvoice\<close> runs to its end, invalidates the
  listing route exactly once and never redirects; when no row has the id the table is
  unchanged and the invalidation still happens.
\<close>

theorem deleteInvoice_one_invalidation:
  assumes "db_error e (Delete i) (invoices w) = None"
      and "deleteInvoice e i w = (c, w')"
  shows "c = Normal \<and>
         filter is_revalidate (events_since w w') = [RevalidatePath ''/dashboard/invoices''] \<and>
         filter is_redirect (events_since w w') = [] \<and>
         (i \<notin> set (map inv_id (invoices w)) \<longrightarrow> invoices w' = invoices w)"
  using assms
  by (auto simp add: deleteInvoice_def seq_def sql_def revalidatePath_def emit_def
        events_since_def filter_id_conv execute_Delete)

theorem deleteInvoice_one_invalidation_witness:
  "db_error env_ok (Delete ''inv-404'') (invoices world_example) = None \<and>
   ''inv-404'' \<notin> set (map inv_id (invoices world_example)) \<and>
   fst (deleteInvoice env_ok ''inv-404'' world_example) = Normal \<and>
   filter is_revalidate
     (events_since world_example (snd (deleteInvoice env_ok ''inv-404'' world_example)))
     = [RevalidatePath ''/dashboard/invoices''] \<and>
   filter is_redirect
     (events_since world_example (snd (deleteInvoice env_ok ''inv-404'' world_example))) = [] \<and>
   invoices (snd (deleteInvoice env_ok ''inv-404'' world_example)) = invoices world_example"
proof -
  have h: "db_error env_ok (Delete ''inv-404'') (invoices world_example) = None"
    by (simp add: env_ok_def db_accepts_def)
  have n: "''inv-404'' \<notin> set (map inv_id (invoices world_example))"
    by (simp add: world_example_def row_example_def)
  show ?thesis
    using h n deleteInvoice_one_invalidation [OF h surjective_pairing]
    by simp
qed

section \<open>The prior state\<close>

text \<open>
  C9. \<^verbatim>\<open>createInvoice\<close> and \<^verbatim>\<open>updateInvoice\<close> of the second version never read
  \<^verbatim>\<open>prevState\<close>: with the same form data, the same surroundings and the same starting
  table and trace, two prior states give the same completion and the same effects.
\<close>

theorem prevState_never_read:
  "createInvoice e s1 formData w = createInvoice e s2 formData w \<and>
   updateInvoice e i s1 formData w = updateInvoice e i s2 formData w"
  by (simp add: createInvoice_def updateInvoice_def)

section \<open>Rejected amounts\<close>

text \<open>
  C3. When the amount field coerces to NaN (a string that is not a numeric literal) or to
  a number that is not greater than 0, \<^verbatim>\<open>createInvoice\<close> and \<^verbatim>\<open>updateInvoice\<close> (second
  version) return the validation-failure object, whose \<^verbatim>\<open>errors\<close> hold a message for
  \<^verbatim>\<open>amount\<close>, and send no statement: the table is untouched.
\<close>

theorem bad_amount_rejected_before_sql:
  assumes "to_number (formData_get formData ''amount'') = NaN \<or>
           less_eq_number (to_number (formData_get formData ''amount'')) (Finite 0)"
  shows "(createInvoice e prevState formData w = (c, w') \<longrightarrow>
            (\<exists>errs. c = Return \<lparr>errors = Some errs,
                                 message = Some ''Missing fields. Failed to create invoice.''\<rparr> \<and>
               map_of errs ''amount'' =
                 Some [if to_number (formData_get formData ''amount'') = NaN
                       then ''Expected number, received nan''
                       else ''Please enter an amount greater than $0.'']) \<and>
            filter is_sql (events_since w w') = [] \<and> invoices w' = invoices w) \<and>
         (updateInvoice e i prevState formData w = (c, w') \<longrightarrow>
            (\<exists>errs. c = Return \<lparr>errors = Some errs,
                                 message = Some ''Missing fields. Failed to update invoice.''\<rparr> \<and>
               map_of errs ''amount'' =
                 Some [if to_number (formData_get formData ''amount'') = NaN
                       then ''Expected number, received nan''
                       else ''Please enter an amount greater than $0.'']) \<and>
            filter is_sql (events_since w w') = [] \<and> invoices w' = invoices w)"
proof -
  from CreateInvoice_amount_rejected [OF assms] obtain issues where
    rej: "CreateInvoice (rawFormData_of formData) = Inl issues" and
    msgs: "messages_for ''amount'' issues =
             [if to_number (formData_get formData ''amount'') = NaN
              then ''Expected number, received nan''
              else ''Please enter an amount greater than $0.'']"
    by blast
  have m: "map_of (fieldErrors issues) ''amount'' =
             Some [if to_number (formData_get formData ''amount'') = NaN
                   then ''Expected number, received nan''
                   else ''Please enter an amount greater than $0.'']"
    by (simp add: map_of_fieldErrors msgs)
  have rej': "UpdateInvoice (rawFormData_of formData) = Inl issues"
    using rej by (simp add: UpdateInvoice_def)
  have logs: "filter is_sql (create_logs formData) = []"
    by (simp add: create_logs_def)
  show ?thesis
    using createInvoice_invalid [OF rej, of e prevState w]
          updateInvoice_invalid [OF rej', of e i prevState w] m logs
    by (auto simp add: events_since_def)
qed

theorem bad_amount_rejected_before_sql_witness:
  "(to_number (formData_get form_abc ''amount'') = NaN \<or>
    less_eq_number (to_number (formData_get form_abc ''amount'')) (Finite 0)) \<and>
   (\<exists>errs. fst (createInvoice env_ok no_state form_abc world_example) =
       Return \<lparr>errors = Some errs, message = Some ''Missing fields. Failed to create invoice.''\<rparr> \<and>
       map_of errs ''amount'' = Some [''Expected number, received nan'']) \<and>
   filter is_sql
     (events_since world_example (snd (createInvoice env_ok no_state form_abc world_example))) = [] \<and>
   (to_number (formData_get form_minus ''amount'') = NaN \<or>
    less_eq_number (to_number (formData_get form_minus ''amount'')) (Finite 0)) \<and>
   (\<exists>errs. fst (updateInvoice env_ok ''inv-1'' no_state form_minus world_example) =
       Return \<lparr>errors = Some errs, message = Some ''Missing fields. Failed to update invoice.''\<rparr> \<and>
       map_of errs ''amount'' = Some [''Please enter an amount greater than $0.'']) \<and>
   invoices (snd (updateInvoice env_ok ''inv-1'' no_state form_minus world_example)) =
     invoices world_example"
proof -
  have a: "formData_get form_abc ''amount'' = Str ''abc''"
    by (simp add: form_abc_def formData_get_def)
  have b: "formData_get form_minus ''amount'' = Str ''-5''"
    by (simp add: form_minus_def formData_get_def)
  have h1: "to_number (formData_get form_abc ''amount'') = NaN \<or>
            less_eq_number (to_number (formData_get form_abc ''amount'')) (Finite 0)"
    by (simp add: a not_numeric_abc)
  have h2: "to_number (formData_get form_minus ''amount'') = NaN \<or>
            less_eq_number (to_number (formData_get form_minus ''amount'')) (Finite 0)"
    by (simp add: b not_positive_minus)
  show ?thesis
    using h1 h2
      bad_amount_rejected_before_sql [OF h1, where e = env_ok and prevState = no_state
        and w = world_example
        and c = "fst (createInvoice env_ok no_state form_abc world_example)"
        and w' = "snd (createInvoice env_ok no_state form_abc world_example)"]
      bad_amount_rejected_before_sql [OF h2, where e = env_ok and prevState = no_state
        and w = world_example and i = "''inv-1''"
        and c = "fst (updateInvoice env_ok ''inv-1'' no_state form_minus world_example)"
        and w' = "snd (updateInvoice env_ok ''inv-1'' no_state form_minus world_example)"]
    by (simp add: a b not_numeric_abc not_positive_minus)
qed

section \<open>The date column under \<^verbatim>\<open>updateInvoice\<close>\<close>

lemma update_rows_date:
  "map inv_date
     (map (\<lambda>r. if inv_id r = i then r\<lparr>inv_customer_id := c, inv_amount := n, inv_status := s\<rparr>
                else r) rows) = map inv_date rows"
  by (induction rows) auto

lemma update_rows_id:
  "map inv_id
     (map (\<lambda>r. if inv_id r = i then r\<lparr>inv_customer_id := c, inv_amount := n, inv_status := s\<rparr>
                else r) rows) = map inv_id rows"
  by (induction rows) auto

lemma execute_update_frame:
  assumes "execute e (Update c a s i) rows = Inr rows'"
  shows "map inv_date rows' = map inv_date rows" and "map inv_id rows' = map inv_id rows"
  using assms
  by (auto simp add: execute_Inr update_rows_date update_rows_id simp del: map_map
        split: option.splits)

lemma updateInvoice_date_frame:
  "map inv_date (invoices (snd (updateInvoice e i prevState formData w))) = map inv_date (invoices w) \<and>
   map inv_id (invoices (snd (updateInvoice e i prevState formData w))) = map inv_id (invoices w) \<and>
   list_all (is_update_of i)
     (filter is_sql (events_since w (snd (updateInvoice e i prevState formData w))))"
proof (cases "UpdateInvoice (rawFormData_of formData)")
  case (Inl error)
  show ?thesis
    by (simp add: updateInvoice_invalid [OF Inl] events_since_def)
next
  case (Inr d)
  obtain customerId amount status where d: "d = (customerId, amount, status)"
    by (cases d) auto
  note parsed = Inr [unfolded d]
  show ?thesis
  proof (cases "execute e (Update customerId (times_number amount (Finite 100)) status i) (invoices w)")
    case (Inr rows)
    show ?thesis
      by (simp add: updateInvoice_written [OF parsed Inr] events_since_def
            execute_update_frame [OF Inr])
  next
    case (Inl err')
    show ?thesis
      by (simp add: updateInvoice_db_error [OF parsed Inl] events_since_def)
  qed
qed

lemma updateInvoice_permissive_date_frame:
  "map inv_date (invoices (snd (updateInvoice_permissive e i formData w))) = map inv_date (invoices w) \<and>
   map inv_id (invoices (snd (updateInvoice_permissive e i formData w))) = map inv_id (invoices w) \<and>
   list_all (is_update_of i)
     (filter is_sql (events_since w (snd (updateInvoice_permissive e i formData w))))"
proof (cases "UpdateInvoice_permissive (rawFormData_of formData)")
  case (Inl error)
  show ?thesis
    by (simp add: updateInvoice_permissive_invalid [OF Inl] events_since_def)
next
  case (Inr d)
  obtain customerId amount status where d: "d = (customerId, amount, status)"
    by (cases d) auto
  note parsed = Inr [unfolded d]
  show ?thesis
  proof (cases "execute e (Update customerId (times_number amount (Finite 100)) status i) (invoices w)")
    case (Inr rows)
    show ?thesis
      by (simp add: updateInvoice_permissive_written [OF parsed Inr] events_since_def
            execute_update_frame [OF Inr])
  next
    case (Inl err')
    show ?thesis
      by (simp add: updateInvoice_permissive_db_error [OF parsed Inl] events_since_def)
  qed
qed

text \<open>
  C6. For every id and every form, \<^verbatim>\<open>updateInvoice\<close> (either version) leaves the date
  of every row as it was, and the ids too: whatever statement it sends is the UPDATE keyed
  by that id, which sets \<^verbatim>\<open>customer_id\<close>, \<^verbatim>\<open>amount\<close> and \<^verbatim>\<open>status\<close> only.
\<close>

theorem updateInvoice_keeps_date:
  "map inv_date (invoices (snd (updateInvoice e i prevState formData w))) = map inv_date (invoices w) \<and>
   map inv_id (invoices (snd (updateInvoice e i prevState formData w))) = map inv_id (invoices w) \<and>
   list_all (is_update_of i)
     (filter is_sql (events_since w (snd (updateInvoice e i prevState formData w)))) \<and>
   map inv_date (invoices (snd (updateInvoice_permissive e i formData w))) = map inv_date (invoices w) \<and>
   map inv_id (invoices (snd (updateInvoice_permissive e i formData w))) = map inv_id (invoices w) \<and>
   list_all (is_update_of i)
     (filter is_sql (events_since w (snd (updateInvoice_permissive e i formData w))))"
  using updateInvoice_date_frame [of e i prevState formData w]
        updateInvoice_permissive_date_frame [of e i formData w]
  by blast

theorem updateInvoice_keeps_date_witness:
  "map inv_date (invoices (snd (updateInvoice env_ok ''inv-1'' no_state form_c1 world_example))) =
     [''2024-02-29''] \<and>
   map inv_amount (invoices (snd (updateInvoice env_ok ''inv-1'' no_state form_c1 world_example))) =
     [4999] \<and>
   list_all (is_update_of ''inv-1'')
     (filter is_sql (events_since world_example
        (snd (updateInvoice env_ok ''inv-1'' no_state form_c1 world_example))))"
proof -
  have run: "invoices (snd (updateInvoice env_ok ''inv-1'' no_state form_c1 world_example)) =
               [row_example\<lparr>inv_customer_id := ''c1'', inv_amount := 4999,
                              inv_status := ''pending''\<rparr>]"
    by (simp add: updateInvoice_written [OF form_c1_valid_update env_ok_update_c1]
          world_example_def row_example_def)
  show ?thesis
    using updateInvoice_keeps_date [of env_ok "''inv-1''" no_state form_c1 world_example] run
    by (simp add: world_example_def row_example_def)
qed

section \<open>The customer field\<close>

lemma customer_rejected:
  assumes "v = Null \<or> v = File"
  shows "z_string (Some ''Please select a customer.'') v =
           Inl [(invalid_type, ''Please select a customer.'')]"
  using assms by (auto simp add: z_string_def invalid_type_message_def)

lemma CreateInvoice_customer_rejected:
  assumes "formData_get formData ''customerId'' = Null \<or> formData_get formData ''customerId'' = File"
  shows "\<exists>issues. CreateInvoice (rawFormData_of formData) = Inl issues \<and>
           messages_for ''customerId'' issues = [''Please select a customer.'']"
  unfolding CreateInvoice_def
  by (subst z_object3_Inl) (simp_all add: customer_rejected [OF assms] messages_for_issues_at)

lemma CreateInvoice_customer_accepted:
  assumes "formData_get formData ''customerId'' = Str s"
      and "CreateInvoice (rawFormData_of formData) = Inl issues"
  shows "messages_for ''customerId'' issues = []"
  using z_object3_issues [OF assms(2) [unfolded CreateInvoice_def]] assms(1)
  by (simp add: messages_for_issues_at z_string_def)

lemma field_messages_invalid:
  "field_messages k (Return \<lparr>errors = Some (fieldErrors issues), message = m\<rparr>) = messages_for k issues"
  by (simp add: field_messages_def map_of_fieldErrors)

lemma field_messages_none [simp]:
  "field_messages k (Return \<lparr>errors = None, message = m\<rparr>) = []"
  "field_messages k (Throw x) = []"
  by (simp_all add: field_messages_def)

lemma createInvoice_string_customer:
  assumes "formData_get formData ''customerId'' = Str s"
  shows "field_messages ''customerId'' (fst (createInvoice e prevState formData w)) = []"
proof (cases "CreateInvoice (rawFormData_of formData)")
  case (Inl issues)
  show ?thesis
    by (simp add: createInvoice_invalid [OF Inl] field_messages_invalid
          CreateInvoice_customer_accepted [OF assms Inl])
next
  case (Inr d)
  obtain customerId amount status where d: "d = (customerId, amount, status)"
    by (cases d) auto
  note parsed = Inr [unfolded d]
  show ?thesis
  proof (cases "execute e (Insert customerId (times_number amount (Finite 100)) status (today e)) (invoices w)")
    case (Inr rows)
    show ?thesis
      by (simp add: createInvoice_written [OF parsed Inr])
  next
    case (Inl err')
    show ?thesis
      by (simp add: createInvoice_db_error [OF parsed Inl])
  qed
qed

lemma empty_customer_run:
  "createInvoice e prevState form_empty_customer w =
     (Return \<lparr>errors = Some [(''amount'', [''Please enter an amount greater than $0.''])],
              message = Some ''Missing fields. Failed to create invoice.''\<rparr>,
      \<lparr>invoices = invoices w, trace = trace w @ create_logs form_empty_customer\<rparr>)"
proof -
  have "CreateInvoice (rawFormData_of form_empty_customer) =
          Inl [\<lparr>code = too_small, path = [''amount''],
                issue_message = ''Please enter an amount greater than $0.''\<rparr>]"
    by code_simp
  from createInvoice_invalid [OF this, of e prevState w] show ?thesis
    by (simp add: fieldErrors_def)
qed

text \<open>
  C5, as the code has it. The schema of \<^verbatim>\<open>customerId\<close> is \<^verbatim>\<open>z.string\<close> with a message
  for a wrong type only: a customerId that is absent or a file is reported with
  "Please select a customer." and no statement is sent, while every string, the empty
  one included, is accepted. For \<^verbatim>\<open>{customerId:"", amount:"0", status:"paid"}\<close> the
  handler returns the error of the amount field alone, and sends no statement.
\<close>

theorem customer_must_be_a_string:
  "(formData_get formData ''customerId'' = Null \<or> formData_get formData ''customerId'' = File \<longrightarrow>
      field_messages ''customerId'' (fst (createInvoice e prevState formData w)) =
        [''Please select a customer.''] \<and>
      filter is_sql (events_since w (snd (createInvoice e prevState formData w))) = []) \<and>
   (formData_get formData ''customerId'' = Str s \<longrightarrow>
      field_messages ''customerId'' (fst (createInvoice e prevState formData w)) = []) \<and>
   createInvoice e prevState form_empty_customer w =
     (Return \<lparr>errors = Some [(''amount'', [''Please enter an amount greater than $0.''])],
              message = Some ''Missing fields. Failed to create invoice.''\<rparr>,
      \<lparr>invoices = invoices w, trace = trace w @ create_logs form_empty_customer\<rparr>) \<and>
   filter is_sql (create_logs form_empty_customer) = []"
proof -
  have a: "field_messages ''customerId'' (fst (createInvoice e prevState formData w)) =
        [''Please select a customer.''] \<and>
      filter is_sql (events_since w (snd (createInvoice e prevState formData w))) = []"
    if h: "formData_get formData ''customerId'' = Null \<or> formData_get formData ''customerId'' = File"
  proof -
    from CreateInvoice_customer_rejected [OF h] obtain issues where
      rej: "CreateInvoice (rawFormData_of formData) = Inl issues" and
      msgs: "messages_for ''customerId'' issues = [''Please select a customer.'']"
      by blast
    show ?thesis
      by (simp add: createInvoice_invalid [OF rej] field_messages_invalid msgs events_since_def
            create_logs_def)
  qed
  have c: "filter is_sql (create_logs form_empty_customer) = []"
    by (simp add: create_logs_def)
  show ?thesis
    using a createInvoice_string_customer [of formData s e prevState w]
      empty_customer_run [of e prevState w] c
    by blast
qed

theorem customer_must_be_a_string_witness:
  "(formData_get form_no_customer ''customerId'' = Null \<or>
    formData_get form_no_customer ''customerId'' = File) \<and>
   field_messages ''customerId'' (fst (createInvoice env_ok no_state form_no_customer empty_world)) =
     [''Please select a customer.''] \<and>
   formData_get form_empty_customer ''customerId'' = Str '''' \<and>
   field_messages ''customerId'' (fst (createInvoice env_ok no_state form_empty_customer empty_world)) = []"
proof -
  have h1: "formData_get form_no_customer ''customerId'' = Null \<or>
            formData_get form_no_customer ''customerId'' = File"
    by (simp add: form_no_customer_def formData_get_def)
  have h2: "formData_get form_empty_customer ''customerId'' = Str ''''"
    by (simp add: form_empty_customer_def formData_get_def)
  show ?thesis
    using h1 h2
      customer_must_be_a_string [of form_no_customer env_ok no_state empty_world]
      customer_must_be_a_string [of form_empty_customer env_ok no_state empty_world "''''"]
    by blast
qed

text \<open>
  The claim as stated fails on the input of the specification's scenario: the returned
  \<^verbatim>\<open>errors\<close> have no entry for \<^verbatim>\<open>customerId\<close>.
\<close>

theorem empty_customer_counterexample:
  "map_of [(''amount'', [''Please enter an amount greater than $0.''])] ''customerId'' = None \<and>
   createInvoice env_ok no_state form_empty_customer empty_world =
     (Return \<lparr>errors = Some [(''amount'', [''Please enter an amount greater than $0.''])],
              message = Some ''Missing fields. Failed to create invoice.''\<rparr>,
      \<lparr>invoices = [],
       trace = [Console_log_object [(''customerId'', Str ''''), (''amount'', Str ''0''),
                                    (''status'', Str ''paid'')],
                Console_log ''string'']\<rparr>)"
  by code_simp

section \<open>The first version: \<^verbatim>\<open>parse\<close> throws\<close>

lemma isl_z_string: "isl (z_string m v) \<longleftrightarrow> \<not> is_string v"
  by (cases v) (simp_all add: z_string_def)

lemma isl_z_coerce_number: "isl (z_coerce_number v) \<longleftrightarrow> to_number v = NaN"
  by (simp add: z_coerce_number_def Let_def)

lemma isl_z_enum: "isl (z_enum [''pending'', ''paid''] m v) \<longleftrightarrow> \<not> is_status v"
  by (cases v) (auto simp add: z_enum_def)

lemma issues_at_nonempty:
  "issues_at k (z_string m v) = [] \<longleftrightarrow> \<not> isl (z_string m v)"
  "issues_at k (z_coerce_number v) = [] \<longleftrightarrow> \<not> isl (z_coerce_number v)"
  "issues_at k (z_enum vs m v) = [] \<longleftrightarrow> \<not> isl (z_enum vs m v)"
  by (auto simp add: issues_at_def z_string_def z_coerce_number_def z_enum_def Let_def
        split: jsval.splits)

lemma CreateInvoice_permissive_rejects:
  assumes "\<not> is_string (formData_get formData ''customerId'') \<or>
           to_number (formData_get formData ''amount'') = NaN \<or>
           \<not> is_status (formData_get formData ''status'')"
  shows "\<exists>issues. issues \<noteq> [] \<and> CreateInvoice_permissive (rawFormData_of formData) = Inl issues"
proof -
  let ?r1 = "z_string None (formData_get formData ''customerId'')"
  let ?r2 = "z_coerce_number (formData_get formData ''amount'')"
  let ?r3 = "z_enum [''pending'', ''paid''] None (formData_get formData ''status'')"
  have bad: "isl ?r1 \<or> isl ?r2 \<or> isl ?r3"
    using assms by (simp add: isl_z_string isl_z_coerce_number isl_z_enum)
  then have ne: "issues_at ''customerId'' ?r1 @ issues_at ''amount'' ?r2 @ issues_at ''status'' ?r3 \<noteq> []"
    by (auto simp add: issues_at_nonempty)
  have "CreateInvoice_permissive (rawFormData_of formData) =
          Inl (issues_at ''customerId'' ?r1 @ issues_at ''amount'' ?r2 @ issues_at ''status'' ?r3)"
    unfolding CreateInvoice_permissive_def
    by (subst z_object3_Inl) (use bad in simp_all)
  with ne show ?thesis by blast
qed

lemma CreateInvoice_permissive_absent_amount:
  assumes "formData_get formData ''customerId'' = Str c"
      and "formData_get formData ''amount'' = Null"
      and "formData_get formData ''status'' = Str s"
      and "s = ''pending'' \<or> s = ''paid''"
  shows "CreateInvoice_permissive (rawFormData_of formData) = Inr (c, Finite 0, s)"
  unfolding CreateInvoice_permissive_def
  by (rule z_object3_Inr) (use assms in \<open>auto simp add: z_string_def z_coerce_number_def z_enum_def\<close>)

lemma zero_cents: "times_number (Finite 0) (Finite 100) = Finite 0"
  by (simp add: round_double_def)

lemma createInvoice_permissive_throws:
  "\<exists>x. fst (createInvoice_permissive e formData w) = Throw x"
proof (cases "CreateInvoice_permissive (rawFormData_of formData)")
  case (Inl issues)
  show ?thesis by (simp add: createInvoice_permissive_invalid [OF Inl])
next
  case (Inr d)
  obtain customerId amount status where d: "d = (customerId, amount, status)"
    by (cases d) auto
  note parsed = Inr [unfolded d]
  show ?thesis
  proof (cases "execute e (Insert customerId (times_number amount (Finite 100)) status (today e)) (invoices w)")
    case (Inr rows)
    show ?thesis by (simp add: createInvoice_permissive_written [OF parsed Inr])
  next
    case (Inl err')
    show ?thesis by (simp add: createInvoice_permissive_db_error [OF parsed Inl])
  qed
qed

lemma updateInvoice_permissive_throws:
  "\<exists>x. fst (updateInvoice_permissive e i formData w) = Throw x"
proof (cases "UpdateInvoice_permissive (rawFormData_of formData)")
  case (Inl issues)
  show ?thesis by (simp add: updateInvoice_permissive_invalid [OF Inl])
next
  case (Inr d)
  obtain customerId amount status where d: "d = (customerId, amount, status)"
    by (cases d) auto
  note parsed = Inr [unfolded d]
  show ?thesis
  proof (cases "execute e (Update customerId (times_number amount (Finite 100)) status i) (invoices w)")
    case (Inr rows)
    show ?thesis by (simp add: updateInvoice_permissive_written [OF parsed Inr])
  next
    case (Inl err')
    show ?thesis by (simp add: updateInvoice_permissive_db_error [OF parsed Inl])
  qed
qed

lemma createInvoice_permissive_absent_amount:
  assumes "formData_get formData ''customerId'' = Str c"
      and "formData_get formData ''amount'' = Null"
      and "formData_get formData ''status'' = Str s"
      and "s = ''pending'' \<or> s = ''paid''"
  shows "Sql (Insert c (Finite 0) s (today e)) \<in>
           set (events_since w (snd (createInvoice_permissive e formData w)))"
proof -
  note ok = CreateInvoice_permissive_absent_amount [OF assms]
  show ?thesis
  proof (cases "execute e (Insert c (times_number (Finite 0) (Finite 100)) s (today e)) (invoices w)")
    case (Inr rows)
    show ?thesis
      by (simp add: createInvoice_permissive_written [OF ok Inr] events_since_def zero_cents
            del: times_number.simps)
  next
    case (Inl err')
    show ?thesis
      by (simp add: createInvoice_permissive_db_error [OF ok Inl] events_since_def zero_cents
            del: times_number.simps)
  qed
qed

text \<open>
  C8, as the code has it. In the first version, a form whose customerId is not a string,
  whose amount coerces to NaN or whose status is not \<^verbatim>\<open>pending\<close> or \<^verbatim>\<open>paid\<close> makes
  \<^verbatim>\<open>createInvoice\<close> and \<^verbatim>\<open>updateInvoice\<close> throw the validation error before any
  statement is sent; neither handler ever returns an object (every run ends in a throw).
  An absent amount is not such a form: \<^verbatim>\<open>Number(null)\<close> is 0, the schema has no lower
  bound, and the INSERT is sent with amount 0.
\<close>

theorem permissive_parse_throws:
  "(\<not> is_string (formData_get formData ''customerId'') \<or>
    to_number (formData_get formData ''amount'') = NaN \<or>
    \<not> is_status (formData_get formData ''status'') \<longrightarrow>
      (\<exists>issues. issues \<noteq> [] \<and>
         createInvoice_permissive e formData w =
           (Throw (ZodError issues),
            \<lparr>invoices = invoices w, trace = trace w @ create_logs formData\<rparr>) \<and>
         updateInvoice_permissive e i formData w = (Throw (ZodError issues), w))) \<and>
   filter is_sql (create_logs formData) = [] \<and>
   (\<exists>x. fst (createInvoice_permissive e formData w) = Throw x) \<and>
   (\<exists>x. fst (updateInvoice_permissive e i formData w) = Throw x) \<and>
   (formData_get formData ''customerId'' = Str c \<and> formData_get formData ''amount'' = Null \<and>
    formData_get formData ''status'' = Str s \<and> (s = ''pending'' \<or> s = ''paid'') \<longrightarrow>
      Sql (Insert c (Finite 0) s (today e)) \<in>
        set (events_since w (snd (createInvoice_permissive e formData w))))"
proof -
  have a: "\<exists>issues. issues \<noteq> [] \<and>
         createInvoice_permissive e formData w =
           (Throw (ZodError issues),
            \<lparr>invoices = invoices w, trace = trace w @ create_logs formData\<rparr>) \<and>
         updateInvoice_permissive e i formData w = (Throw (ZodError issues), w)"
    if bad: "\<not> is_string (formData_get formData ''customerId'') \<or>
      to_number (formData_get formData ''amount'') = NaN \<or>
      \<not> is_status (formData_get formData ''status'')"
  proof -
    from CreateInvoice_permissive_rejects [OF bad] obtain issues where
      ne: "issues \<noteq> []" and rej: "CreateInvoice_permissive (rawFormData_of formData) = Inl issues"
      by blast
    have rej': "UpdateInvoice_permissive (rawFormData_of formData) = Inl issues"
      using rej by (simp add: UpdateInvoice_permissive_def)
    show ?thesis
      using ne createInvoice_permissive_invalid [OF rej, of e w]
        updateInvoice_permissive_invalid [OF rej', of e i w]
      by blast
  qed
  have l: "filter is_sql (create_logs formData) = []"
    by (simp add: create_logs_def)
  show ?thesis
    using a l createInvoice_permissive_throws [of e formData w]
      updateInvoice_permissive_throws [of e i formData w]
      createInvoice_permissive_absent_amount [of formData c s e w]
    by blast
qed

theorem permissive_parse_throws_witness:
  "\<not> is_status (formData_get form_bad_status ''status'') \<and>
   (\<exists>issues. issues \<noteq> [] \<and>
      createInvoice_permissive env_ok form_bad_status world_example =
        (Throw (ZodError issues),
         \<lparr>invoices = invoices world_example,
          trace = trace world_example @ create_logs form_bad_status\<rparr>) \<and>
      updateInvoice_permissive env_ok ''inv-1'' form_bad_status world_example =
        (Throw (ZodError issues), world_example)) \<and>
   formData_get form_no_amount ''customerId'' = Str ''c1'' \<and>
   formData_get form_no_amount ''amount'' = Null \<and>
   formData_get form_no_amount ''status'' = Str ''pending'' \<and>
   Sql (Insert ''c1'' (Finite 0) ''pending'' (today env_ok)) \<in>
     set (events_since world_example (snd (createInvoice_permissive env_ok form_no_amount world_example)))"
proof -
  have h1: "\<not> is_status (formData_get form_bad_status ''status'')"
    by (simp add: form_bad_status_def formData_get_def)
  have h2: "formData_get form_no_amount ''customerId'' = Str ''c1'' \<and>
    formData_get form_no_amount ''amount'' = Null \<and>
    formData_get form_no_amount ''status'' = Str ''pending'' \<and>
    (''pending'' = ''pending'' \<or> ''pending'' = ''paid'')"
    by (simp add: form_no_amount_def formData_get_def)
  show ?thesis
    using h1 h2
      permissive_parse_throws [of form_bad_status env_ok world_example "''inv-1''"]
      permissive_parse_throws [of form_no_amount env_ok world_example _ "''c1''" "''pending''"]
    by blast
qed

text \<open>
  The claim as stated fails on a form with no amount field: nothing is thrown during
  parsing and a row with amount 0 is written.
\<close>

theorem absent_amount_counterexample:
  "formData_get form_no_amount ''amount'' = Null \<and>
   createInvoice_permissive env_ok form_no_amount empty_world =
     (Throw (NEXT_REDIRECT ''/dashboard/invoices''),
      \<lparr>invoices = [\<lparr>inv_id = ''inv-new'', inv_customer_id = ''c1'', inv_amount = 0,
                     inv_status = ''pending'', inv_date = ''2026-11-03''\<rparr>],
       trace = [Console_log_object [(''customerId'', Str ''c1''), (''amount'', Null),
                                    (''status'', Str ''pending'')],
                Console_log ''object'',
                Sql (Insert ''c1'' (Finite 0) ''pending'' ''2026-11-03''),
                RevalidatePath ''/dashboard/invoices'',
                Redirect ''/dashboard/invoices'']\<rparr>)"
  by code_simp

section \<open>What \<^verbatim>\<open>createInvoice\<close> writes\<close>

lemma digit_char_not_T: "digit_char d \<noteq> CHR ''T''"
proof -
  have "digit_char d \<in> set ''0123456789''"
    unfolding digit_char_def by (rule nth_mem) simp
  then show ?thesis by auto
qed

lemma pad_no_T: "CHR ''T'' \<notin> set (pad n k)"
  by (induction n arbitrary: k) (auto simp add: digit_char_not_T [symmetric])

lemma year_string_no_T: "CHR ''T'' \<notin> set (year_string y)"
  by (simp add: year_string_def pad_no_T)

lemma hd_split: "c \<notin> set a \<Longrightarrow> hd (split c (a @ c # b)) = a"
  by (induction a) (auto simp add: Let_def)

lemma today_is_date:
  "today e = year_string (year (now e)) @ ''-'' @ pad 2 (month (now e)) @ ''-'' @ pad 2 (day (now e))"
proof -
  let ?d = "year_string (year (now e)) @ ''-'' @ pad 2 (month (now e)) @ ''-'' @ pad 2 (day (now e))"
  let ?t = "pad 2 (hours (now e)) @ '':'' @ pad 2 (minutes (now e)) @ '':'' @
            pad 2 (seconds (now e)) @ ''.'' @ pad 3 (milliseconds (now e)) @ ''Z''"
  have iso: "toISOString (now e) = ?d @ CHR ''T'' # ?t"
    by (simp add: toISOString_def)
  have "CHR ''T'' \<notin> set ?d"
    using year_string_no_T pad_no_T by simp
  then show ?thesis
    unfolding today_def iso by (rule hd_split)
qed

lemma CreateInvoice_valid:
  assumes "formData_get formData ''customerId'' = Str customerId"
      and "formData_get formData ''amount'' = Str a"
      and "string_to_number a \<noteq> NaN"
      and "\<not> less_eq_number (string_to_number a) (Finite 0)"
      and "formData_get formData ''status'' = Str status"
      and "status = ''pending'' \<or> status = ''paid''"
  shows "CreateInvoice (rawFormData_of formData) = Inr (customerId, string_to_number a, status)"
    and "CreateInvoice_permissive (rawFormData_of formData) = Inr (customerId, string_to_number a, status)"
  unfolding CreateInvoice_def CreateInvoice_permissive_def
  by (rule z_object3_Inr; use assms in \<open>auto simp add: z_string_def z_coerce_number_def z_enum_def gt_def\<close>)+

lemma amount_c1: "string_to_number ''49.99'' = Finite (7035467042882847 / 140737488355328)"
  by code_simp

text \<open>
  What holds of the claim: for a form with a customerId, an amount string that coerces
  to a number greater than 0 and a status of \<^verbatim>\<open>pending\<close> or \<^verbatim>\<open>paid\<close>,
  \<^verbatim>\<open>createInvoice\<close> (either version) sends one INSERT, whose amount is the double
  product \<^verbatim>\<open>amount * 100\<close> and whose date is the calendar date of the clock with no
  time part; for the amount string "49.99" the product is exactly 4999, and the row
  written holds 4999.
\<close>

lemma createInvoice_valid_statement:
  assumes "formData_get formData ''customerId'' = Str customerId"
      and "formData_get formData ''amount'' = Str a"
      and "string_to_number a \<noteq> NaN"
      and "\<not> less_eq_number (string_to_number a) (Finite 0)"
      and "formData_get formData ''status'' = Str status"
      and "status = ''pending'' \<or> status = ''paid''"
  shows "filter is_sql (events_since w (snd (createInvoice e prevState formData w))) =
           [Sql (Insert customerId (times_number (string_to_number a) (Finite 100)) status
                   (year_string (year (now e)) @ ''-'' @ pad 2 (month (now e)) @ ''-'' @
                    pad 2 (day (now e))))]"
    and "filter is_sql (events_since w (snd (createInvoice_permissive e formData w))) =
           [Sql (Insert customerId (times_number (string_to_number a) (Finite 100)) status
                   (year_string (year (now e)) @ ''-'' @ pad 2 (month (now e)) @ ''-'' @
                    pad 2 (day (now e))))]"
proof -
  note v = CreateInvoice_valid [OF assms]
  let ?st = "Insert customerId (times_number (string_to_number a) (Finite 100)) status (today e)"
  have logs: "filter is_sql (create_logs formData) = []"
    by (simp add: create_logs_def)
  have "filter is_sql (events_since w (snd (createInvoice e prevState formData w))) = [Sql ?st]"
  proof (cases "execute e ?st (invoices w)")
    case (Inl err)
    show ?thesis
      by (simp add: createInvoice_db_error [OF v(1) Inl] events_since_def logs)
  next
    case (Inr rows)
    show ?thesis
      by (simp add: createInvoice_written [OF v(1) Inr] events_since_def logs)
  qed
  moreover
  have "filter is_sql (events_since w (snd (createInvoice_permissive e formData w))) = [Sql ?st]"
  proof (cases "execute e ?st (invoices w)")
    case (Inl err)
    show ?thesis
      by (simp add: createInvoice_permissive_db_error [OF v(2) Inl] events_since_def logs)
  next
    case (Inr rows)
    show ?thesis
      by (simp add: createInvoice_permissive_written [OF v(2) Inr] events_since_def logs)
  qed
  ultimately show
    "filter is_sql (events_since w (snd (createInvoice e prevState formData w))) =
           [Sql (Insert customerId (times_number (string_to_number a) (Finite 100)) status
                   (year_string (year (now e)) @ ''-'' @ pad 2 (month (now e)) @ ''-'' @
                    pad 2 (day (now e))))]"
    and "filter is_sql (events_since w (snd (createInvoice_permissive e formData w))) =
           [Sql (Insert customerId (times_number (string_to_number a) (Finite 100)) status
                   (year_string (year (now e)) @ ''-'' @ pad 2 (month (now e)) @ ''-'' @
                    pad 2 (day (now e))))]"
    by (simp_all only: today_is_date [of e])
qed

lemma createInvoice_scenario_c1:
  "invoices (snd (createInvoice env_ok no_state form_c1 world_example)) =
     [row_example,
      \<lparr>inv_id = ''inv-new'', inv_customer_id = ''c1'', inv_amount = 4999,
       inv_status = ''pending'', inv_date = ''2026-11-03''\<rparr>]"
  by (simp add: createInvoice_written [OF form_c1_valid env_ok_insert_c1] today_example
        world_example_def)

text \<open>
  C1, a defect of the code. The claim asks that the amount written be
  \<^verbatim>\<open>round(amount x 100)\<close>, and the source names the value \<^verbatim>\<open>amountInCents\<close>, but
  \<^verbatim>\<open>amount * 100\<close> is not rounded. For the valid form
  \<^verbatim>\<open>{customerId:"c1", amount:"19.99", status:"pending"}\<close> the only statement that
  \<^verbatim>\<open>createInvoice\<close> (either version) sends is the INSERT whose amount parameter is
  the double 1998.9999999999998: it is not the rounded 1999, and it is not a whole
  number of cents at all.
\<close>

theorem createInvoice_sends_unrounded_cents:
  "filter is_sql (trace (snd (createInvoice env_ok no_state form_1999 empty_world))) =
     [Sql (Insert ''c1'' (Finite (8791694975696895 / 4398046511104)) ''pending'' ''2026-11-03'')] \<and>
   filter is_sql (trace (snd (createInvoice_permissive env_ok form_1999 empty_world))) =
     [Sql (Insert ''c1'' (Finite (8791694975696895 / 4398046511104)) ''pending'' ''2026-11-03'')] \<and>
   spec_round (times_number (string_to_number ''19.99'') (Finite 100)) = Finite 1999 \<and>
   Finite (8791694975696895 / 4398046511104) \<noteq> Finite 1999 \<and>
   integer_cents (Finite (8791694975696895 / 4398046511104)) = None"
  by code_simp

text \<open>
  With the integer column of the specification, that INSERT cannot take effect: the
  second version returns the database error message and the first throws, and in both
  the table stays empty. No row with amount 1999 is written.
\<close>

lemma unrounded_cents_not_stored:
  "createInvoice env_ok no_state form_1999 empty_world =
     (Return \<lparr>errors = None, message = Some ''Database Error: Failed to create invoice.''\<rparr>,
      \<lparr>invoices = [],
       trace = create_logs form_1999 @
         [Sql (Insert ''c1'' (Finite (8791694975696895 / 4398046511104)) ''pending''
                 ''2026-11-03'')]\<rparr>)"
  "invoices (snd (createInvoice_permissive env_ok form_1999 empty_world)) = []"
  by code_simp+

end
